theory Spec2Isabelle
  imports Main "HOL-Library.AList"
begin

section \<open>JavaScript values\<close>

text \<open>
  The client of \<^verbatim>\<open>packages/client/src/createTRPCClient.ts\<close> handles untyped JavaScript
  values: procedure inputs, parsed response bodies, envelopes. They are modelled by one
  datatype. Numbers are integers here (status codes, cursors); \<open>JUndefined\<close> is
  JavaScript's \<^verbatim>\<open>undefined\<close>, which is how an absent argument or property reads.
  An object is the list of its own properties.
\<close>

datatype json =
    JUndefined
  | JNull
  | JBool bool
  | JNum int
  | JStr string
  | JArr "json list"
  | JObj "(string \<times> json) list"

text \<open>
  What JavaScript code can throw, or reject a promise with, apart from an instance of
  \<^verbatim>\<open>TRPCClientError\<close>: an \<^verbatim>\<open>Error\<close> object, given by its name and its message, or any
  other value (\<^verbatim>\<open>Promise.reject()\<close> rejects with \<^verbatim>\<open>undefined\<close>).
\<close>

datatype js_error = JsError string string | JsValue json

definition TypeError :: "string \<Rightarrow> js_error" where
  "TypeError k = JsError ''TypeError'' (''Cannot read property '' @ k)"

text \<open>\<^verbatim>\<open>x == null\<close>: true of \<^verbatim>\<open>null\<close> and of \<^verbatim>\<open>undefined\<close> only.\<close>

definition nullish :: "json \<Rightarrow> bool" where
  "nullish v = (v = JUndefined \<or> v = JNull)"

text \<open>The truth value of \<open>v\<close> in a condition (\<^verbatim>\<open>v ? a : b\<close>, \<^verbatim>\<open>if (v)\<close>).\<close>

fun truthy :: "json \<Rightarrow> bool" where
  "truthy JUndefined = False"
| "truthy JNull = False"
| "truthy (JBool b) = b"
| "truthy (JNum n) = (n \<noteq> 0)"
| "truthy (JStr s) = (s \<noteq> [])"
| "truthy (JArr xs) = True"
| "truthy (JObj kvs) = True"

text \<open>
  Property access \<^verbatim>\<open>v.k\<close>: a TypeError on \<^verbatim>\<open>null\<close> and \<^verbatim>\<open>undefined\<close>, the property's
  value on an object that has it, \<^verbatim>\<open>undefined\<close> otherwise. (The client reads only
  \<^verbatim>\<open>ok\<close>, \<^verbatim>\<open>data\<close>, \<^verbatim>\<open>error\<close>, \<^verbatim>\<open>message\<close> and \<^verbatim>\<open>statusCode\<close>, none of which a
  string, number or array inherits.)
\<close>

fun get_prop :: "json \<Rightarrow> string \<Rightarrow> js_error + json" where
  "get_prop JUndefined k = Inl (TypeError k)"
| "get_prop JNull k = Inl (TypeError k)"
| "get_prop (JObj kvs) k = Inr (case map_of kvs k of Some v \<Rightarrow> v | None \<Rightarrow> JUndefined)"
| "get_prop (JBool b) k = Inr JUndefined"
| "get_prop (JNum n) k = Inr JUndefined"
| "get_prop (JStr s) k = Inr JUndefined"
| "get_prop (JArr xs) k = Inr JUndefined"

text \<open>Optional chaining \<^verbatim>\<open>v?.k\<close>: \<^verbatim>\<open>undefined\<close> instead of the TypeError.\<close>

definition opt_prop :: "json \<Rightarrow> string \<Rightarrow> json" where
  "opt_prop v k = (case get_prop v k of Inl e \<Rightarrow> JUndefined | Inr x \<Rightarrow> x)"

text \<open>
  \<^verbatim>\<open>originalError.message\<close> on a caught value: the message of an \<^verbatim>\<open>Error\<close> object,
  the property read on any other value, which throws on \<^verbatim>\<open>null\<close> and \<^verbatim>\<open>undefined\<close>.
\<close>

fun message_of :: "js_error \<Rightarrow> js_error + json" where
  "message_of (JsError name message) = Inr (JStr message)"
| "message_of (JsValue v) = get_prop v ''message''"

section \<open>Client errors\<close>

text \<open>The transport's \<^verbatim>\<open>Response\<close> object; the client only passes it on.\<close>

datatype response = Response (res_status: nat)

text \<open>
  \<^verbatim>\<open>class TRPCClientError\<close>. \<open>ce_json\<close> is the envelope the error was built from
  (\<^verbatim>\<open>null\<close> or \<^verbatim>\<open>undefined\<close> when there is none), \<open>ce_shape\<close> is
  \<^verbatim>\<open>this.json?.error\<close>.
\<close>

record client_error =
  ce_message :: json
  ce_res :: "response option"
  ce_json :: json
  ce_originalError :: "js_error option"
  ce_shape :: json

definition TRPCClientError :: "json \<Rightarrow> response option \<Rightarrow> json \<Rightarrow> js_error option \<Rightarrow> client_error" where
  "TRPCClientError message res json originalError =
     \<lparr>ce_message = message, ce_res = res, ce_json = json,
      ce_originalError = originalError, ce_shape = opt_prop json ''error''\<rparr>"

text \<open>
  What a \<^verbatim>\<open>catch\<close> clause receives: an instance of \<^verbatim>\<open>TRPCClientError\<close>, or anything
  else (the test \<^verbatim>\<open>error instanceof TRPCClientError\<close> tells them apart).
\<close>

datatype thrown = Thrown js_error | ThrownClient client_error

section \<open>The client and its configuration\<close>

text \<open>
  \<^verbatim>\<open>DataTransformer\<close>: \<open>serialize\<close> is applied to inputs when a request is built,
  \<open>deserialize\<close> to the parsed response body inside \<^verbatim>\<open>executeRequest\<close>'s
  \<^verbatim>\<open>try\<close> block, where it may throw.
\<close>

record transformer =
  serialize :: "json \<Rightarrow> json"
  deserialize :: "json \<Rightarrow> thrown + json"

definition default_transformer :: transformer where
  "default_transformer = \<lparr>serialize = (\<lambda>data. data), deserialize = (\<lambda>data. Inr data)\<rparr>"

type_synonym headers = "(string \<times> string) list"

text \<open>
  A \<^verbatim>\<open>TRPCClient\<close> after its constructor ran. A hook is a function that returns
  \<open>None\<close> when it returns normally and \<open>Some t\<close> when it throws \<open>t\<close>.
  \<open>this_AC\<close> tells whether an \<^verbatim>\<open>AbortController\<close> is available.
  \<^verbatim>\<open>JSON.stringify\<close> and \<^verbatim>\<open>encodeURIComponent\<close> belong to the platform and are
  parameters.
\<close>

record client =
  opts_url :: string
  opts_getHeaders :: "headers option"
  opts_onSuccess :: "(json \<Rightarrow> thrown option) option"
  opts_onError :: "(client_error \<Rightarrow> thrown option) option"
  this_transformer :: transformer
  this_AC :: bool
  JSON_stringify :: "json \<Rightarrow> string"
  encodeURIComponent :: "string \<Rightarrow> string"

section \<open>Building the request\<close>

definition retryDelay :: "nat \<Rightarrow> nat" where
  "retryDelay attemptIndex =
     (if attemptIndex = 0 then 0 else min (1000 * 2 ^ attemptIndex) 30000)"

definition serializeInput :: "client \<Rightarrow> json \<Rightarrow> json" where
  "serializeInput c input =
     (if input \<noteq> JUndefined then serialize (this_transformer c) input else input)"

text \<open>
  Object spread \<^verbatim>\<open>{...base, ...ext}\<close>: every property of \<open>ext\<close> is set on the
  result in turn; a key the result already has keeps its place and takes the new value.
\<close>

definition spread :: "headers \<Rightarrow> headers \<Rightarrow> headers" where
  "spread base ext = foldl (\<lambda>acc kv. AList.update (fst kv) (snd kv) acc) base ext"

definition getHeaders :: "client \<Rightarrow> headers" where
  "getHeaders c =
     spread [(''content-type'', ''application/json'')]
       (case opts_getHeaders c of Some h \<Rightarrow> h | None \<Rightarrow> [])"

datatype procedure_type = Query | Mutation | Subscription

record req_opts =
  ro_method :: string
  ro_body :: "string option"
  ro_url :: string

text \<open>
  \<^verbatim>\<open>reqOptsMap[type]()\<close> inside \<^verbatim>\<open>request\<close>. The test \<^verbatim>\<open>input != null\<close> of the
  query case is JavaScript's loose inequality. \<^verbatim>\<open>ProcedureType\<close> has these three
  members only, so the \<^verbatim>\<open>Unhandled type\<close> branch has no input.
\<close>

definition reqOptsMap :: "client \<Rightarrow> procedure_type \<Rightarrow> json \<Rightarrow> string \<Rightarrow> req_opts" where
  "reqOptsMap c ty input path =
     (case ty of
        Query \<Rightarrow>
          \<lparr>ro_method = ''GET'', ro_body = None,
           ro_url = opts_url c @ ''/'' @ path @
             (if \<not> nullish input
              then ''?input='' @ encodeURIComponent c (JSON_stringify c (serializeInput c input))
              else '''')\<rparr>
      | Mutation \<Rightarrow>
          \<lparr>ro_method = ''POST'',
           ro_body = Some (JSON_stringify c (JObj [(''input'', serializeInput c input)])),
           ro_url = opts_url c @ ''/'' @ path\<rparr>
      | Subscription \<Rightarrow>
          \<lparr>ro_method = ''PATCH'',
           ro_body = Some (JSON_stringify c (JObj [(''input'', serializeInput c input)])),
           ro_url = opts_url c @ ''/'' @ path\<rparr>)"

text \<open>
  The \<^verbatim>\<open>RequestInit\<close> handed to \<^verbatim>\<open>fetch\<close>: \<^verbatim>\<open>{...rest, signal: ac?.signal, headers}\<close>.
  \<open>ri_signal\<close> tells whether a signal is attached.
\<close>

record request_init =
  ri_method :: string
  ri_body :: "string option"
  ri_signal :: bool
  ri_headers :: headers

definition reqOpts :: "client \<Rightarrow> procedure_type \<Rightarrow> json \<Rightarrow> string \<Rightarrow> request_init" where
  "reqOpts c ty input path =
     (let rest = reqOptsMap c ty input path
      in \<lparr>ri_method = ro_method rest, ri_body = ro_body rest,
          ri_signal = this_AC c, ri_headers = getHeaders c\<rparr>)"

section \<open>Observable effects\<close>

text \<open>
  What the client does to the outside world, in the order it happens: calls of the
  transport, of \<^verbatim>\<open>ac.abort()\<close>, of the configured hooks and callbacks, of timers, and
  the settling of the promises it hands out.
\<close>

datatype effect =
    Fetch string request_init
  | Abort
  | OnSuccessHook json
  | OnErrorHook client_error
  | Resolve json
  | Reject client_error
  | OnceResolve json
  | OnceReject client_error
  | OnData json
  | OnError thrown
  | SetTimeout nat json

section \<open>The request executor\<close>

text \<open>
  What the transport answers to \<^verbatim>\<open>this.fetch(url, opts)\<close> followed by \<^verbatim>\<open>res.json()\<close>:
  the call fails (network failure, abort), the body cannot be read or parsed, or the body
  parses to a value.
\<close>

datatype fetch_outcome =
    FetchRejects thrown
  | JsonRejects response thrown
  | JsonResolves response json

text \<open>\<^verbatim>\<open>{ok: true, data}\<close> or \<^verbatim>\<open>{ok: false, error}\<close>.\<close>

datatype result = Ok json | Failure client_error

text \<open>
  The \<^verbatim>\<open>catch\<close> clause of \<^verbatim>\<open>executeRequest\<close>, given the values the locals \<^verbatim>\<open>res\<close> and
  \<^verbatim>\<open>json\<close> had when the exception was thrown. \<open>Inl t\<close> is an exception that leaves
  \<^verbatim>\<open>executeRequest\<close>: the TypeError of reading \<^verbatim>\<open>originalError.message\<close> (the first
  argument of \<^verbatim>\<open>new TRPCClientError\<close>, so nothing else happens before it), or what the
  error hook throws.
\<close>

definition catch_block ::
  "client \<Rightarrow> response option \<Rightarrow> json \<Rightarrow> thrown \<Rightarrow> effect list \<times> (thrown + result)" where
  "catch_block c res json originalError =
     (case (case originalError of
              ThrownClient e \<Rightarrow> Inr e
            | Thrown e \<Rightarrow>
                (case message_of e of
                   Inl typeError \<Rightarrow> Inl (Thrown typeError)
                 | Inr message \<Rightarrow>
                     Inr (TRPCClientError message res
                            (if truthy (opt_prop json ''ok'') then JNull else json) (Some e)))) of
        Inl t \<Rightarrow> ([], Inl t)
      | Inr error \<Rightarrow>
          (case opts_onError c of
             None \<Rightarrow> ([], Inr (Failure error))
           | Some hook \<Rightarrow>
               (case hook error of
                  None \<Rightarrow> ([OnErrorHook error], Inr (Failure error))
                | Some t \<Rightarrow> ([OnErrorHook error], Inl t))))"

text \<open>
  \<^verbatim>\<open>executeRequest\<close> from the transport's answer on. (The call of \<^verbatim>\<open>this.fetch\<close>
  itself is recorded where the request is created.) In the branches after \<^verbatim>\<open>json.ok\<close>
  was read, \<open>json\<close> is neither \<^verbatim>\<open>null\<close> nor \<^verbatim>\<open>undefined\<close>, so \<^verbatim>\<open>json.data\<close> and
  \<^verbatim>\<open>json.error\<close> cannot throw and \<open>opt_prop\<close> reads them.
\<close>

definition executeRequest :: "client \<Rightarrow> fetch_outcome \<Rightarrow> effect list \<times> (thrown + result)" where
  "executeRequest c outcome =
     (case outcome of
        FetchRejects t \<Rightarrow> catch_block c None JNull t
      | JsonRejects res t \<Rightarrow> catch_block c (Some res) JNull t
      | JsonResolves res rawJson \<Rightarrow>
          (case deserialize (this_transformer c) rawJson of
             Inl t \<Rightarrow> catch_block c (Some res) JNull t
           | Inr json \<Rightarrow>
               (case get_prop json ''ok'' of
                  Inl e \<Rightarrow> catch_block c (Some res) json (Thrown e)
                | Inr ok \<Rightarrow>
                    if truthy ok then
                      (case opts_onSuccess c of
                         None \<Rightarrow> ([], Inr (Ok (opt_prop json ''data'')))
                       | Some hook \<Rightarrow>
                           (case hook json of
                              None \<Rightarrow> ([OnSuccessHook json], Inr (Ok (opt_prop json ''data'')))
                            | Some t \<Rightarrow>
                                (let (effs, r) = catch_block c (Some res) json t
                                 in (OnSuccessHook json # effs, r))))
                    else
                      (case get_prop (opt_prop json ''error'') ''message'' of
                         Inl e \<Rightarrow> catch_block c (Some res) json (Thrown e)
                       | Inr message \<Rightarrow>
                           ([], Inr (Failure (TRPCClientError message (Some res) json None)))))))"

section \<open>Cancellable requests\<close>

text \<open>
  The closure of one call of \<^verbatim>\<open>request\<close>: the locals \<^verbatim>\<open>ac\<close>, \<^verbatim>\<open>aborted\<close> and
  \<^verbatim>\<open>settled\<close>, and \<open>rq_pending\<close>: the promise of \<^verbatim>\<open>executeRequest\<close> is still
  pending (a promise settles once, so its \<^verbatim>\<open>then\<close> callback runs at most once).
  The \<^verbatim>\<open>AbortController\<close> is injected (\<^verbatim>\<open>fetchOpts.AbortController\<close>), so nothing is
  assumed about it: \<open>rq_ac\<close> is \<open>None\<close> when there is none (\<^verbatim>\<open>ac\<close> is \<^verbatim>\<open>null\<close>), and
  otherwise the number of times its \<^verbatim>\<open>abort()\<close> has been called. The effect \<open>Abort\<close>
  is one call of \<^verbatim>\<open>ac.abort()\<close>.
  The request counter and the logging do not act on any of this and are left out.
\<close>

record request =
  rq_url :: string
  rq_opts :: request_init
  rq_ac :: "nat option"
  rq_aborted :: bool
  rq_settled :: bool
  rq_pending :: bool

definition request :: "client \<Rightarrow> procedure_type \<Rightarrow> json \<Rightarrow> string \<Rightarrow> request \<times> effect list" where
  "request c ty input path =
     (let reqUrl = ro_url (reqOptsMap c ty input path);
          opts = reqOpts c ty input path
      in (\<lparr>rq_url = reqUrl, rq_opts = opts,
           rq_ac = (if this_AC c then Some 0 else None),
           rq_aborted = False, rq_settled = False, rq_pending = True\<rparr>,
          [Fetch reqUrl opts]))"

text \<open>\<^verbatim>\<open>responsePromise.cancel\<close>.\<close>

definition cancel :: "request \<Rightarrow> request \<times> effect list" where
  "cancel r =
     (if \<not> rq_settled r then
        (case rq_ac r of
           None \<Rightarrow> (r\<lparr>rq_aborted := True\<rparr>, [])
         | Some calls \<Rightarrow> (r\<lparr>rq_aborted := True, rq_ac := Some (calls + 1)\<rparr>, [Abort]))
      else (r, []))"

text \<open>How a promise settled.\<close>

datatype settlement = Resolved json | Rejected client_error

text \<open>
  The transport answers: \<^verbatim>\<open>executeRequest\<close> runs to its end and, unless it threw, the
  \<^verbatim>\<open>then\<close> callback sets \<^verbatim>\<open>settled\<close> and resolves or rejects the promise. The last
  component is how the promise settled in this step, if it did.
\<close>

definition request_complete ::
  "client \<Rightarrow> fetch_outcome \<Rightarrow> request \<Rightarrow> request \<times> effect list \<times> settlement option" where
  "request_complete c outcome r =
     (if \<not> rq_pending r then (r, [], None)
      else case executeRequest c outcome of
             (effs, Inl t) \<Rightarrow> (r\<lparr>rq_pending := False\<rparr>, effs, None)
           | (effs, Inr (Ok data)) \<Rightarrow>
               (r\<lparr>rq_settled := True, rq_pending := False\<rparr>,
                effs @ [Resolve data], Some (Resolved data))
           | (effs, Inr (Failure error)) \<Rightarrow>
               (r\<lparr>rq_settled := True, rq_pending := False\<rparr>,
                effs @ [Reject error], Some (Rejected error)))"

text \<open>
  The life of one request: the caller may call \<^verbatim>\<open>cancel()\<close> at any time, and the
  transport answers when it does.
\<close>

datatype req_event = Cancel | Complete fetch_outcome

fun request_step :: "client \<Rightarrow> req_event \<Rightarrow> request \<Rightarrow> request \<times> effect list" where
  "request_step c Cancel r = cancel r"
| "request_step c (Complete outcome) r =
     (case request_complete c outcome r of (r', effs, s) \<Rightarrow> (r', effs))"

fun request_run :: "client \<Rightarrow> req_event list \<Rightarrow> request \<Rightarrow> request \<times> effect list" where
  "request_run c [] r = (r, [])"
| "request_run c (ev # evs) r =
     (case request_step c ev r of
        (r', effs) \<Rightarrow> (case request_run c evs r' of (r'', effs') \<Rightarrow> (r'', effs @ effs')))"

section \<open>subscriptionOnce\<close>

text \<open>
  The closure of one call of \<^verbatim>\<open>subscriptionOnce(path, input)\<close>: the locals \<^verbatim>\<open>stopped\<close>
  and \<^verbatim>\<open>currentRequest\<close>. (\<^verbatim>\<open>nextTry\<close> is never assigned, so \<^verbatim>\<open>clearTimeout(nextTry)\<close>
  does nothing.) A request is replaced only after it was rejected, so the one in
  \<open>so_currentRequest\<close> is the only one that can still be cancelled or answered.
\<close>

record once =
  so_path :: string
  so_input :: json
  so_stopped :: bool
  so_currentRequest :: "request option"

text \<open>The inner \<^verbatim>\<open>exec\<close> up to its \<^verbatim>\<open>await\<close>.\<close>

definition once_exec :: "client \<Rightarrow> once \<Rightarrow> once \<times> effect list" where
  "once_exec c s =
     (if so_stopped s then (s, [])
      else (let (r, effs) = request c Subscription (so_input s) (so_path s)
            in (s\<lparr>so_currentRequest := Some r\<rparr>, effs)))"

definition subscriptionOnce :: "client \<Rightarrow> string \<Rightarrow> json \<Rightarrow> once \<times> effect list" where
  "subscriptionOnce c path input =
     once_exec c \<lparr>so_path = path, so_input = input, so_stopped = False, so_currentRequest = None\<rparr>"

text \<open>\<^verbatim>\<open>promise.cancel\<close>.\<close>

definition once_cancel :: "once \<Rightarrow> once \<times> effect list" where
  "once_cancel s =
     (case so_currentRequest s of
        None \<Rightarrow> (s\<lparr>so_stopped := True\<rparr>, [])
      | Some r \<Rightarrow>
          (let (r', effs) = cancel r
           in (s\<lparr>so_stopped := True, so_currentRequest := Some r'\<rparr>, effs)))"

text \<open>
  The transport answers the current request, and \<^verbatim>\<open>exec\<close> goes on after its
  \<^verbatim>\<open>await\<close>: it resolves the promise, or catches the rejection and either calls
  \<^verbatim>\<open>exec()\<close> again (\<^verbatim>\<open>err.json?.statusCode === 408\<close>) or rejects the promise.
\<close>

definition once_complete ::
  "client \<Rightarrow> fetch_outcome \<Rightarrow> once \<Rightarrow> once \<times> effect list \<times> settlement option" where
  "once_complete c outcome s =
     (case so_currentRequest s of
        None \<Rightarrow> (s, [], None)
      | Some r \<Rightarrow>
          (case request_complete c outcome r of
             (r', effs, None) \<Rightarrow> (s\<lparr>so_currentRequest := Some r'\<rparr>, effs, None)
           | (r', effs, Some (Resolved data)) \<Rightarrow>
               (s\<lparr>so_currentRequest := Some r'\<rparr>, effs @ [OnceResolve data], Some (Resolved data))
           | (r', effs, Some (Rejected err)) \<Rightarrow>
               if opt_prop (ce_json err) ''statusCode'' = JNum 408
               then (let (s', effs') = once_exec c (s\<lparr>so_currentRequest := Some r'\<rparr>)
                     in (s', effs @ effs', None))
               else (s\<lparr>so_currentRequest := Some r'\<rparr>, effs @ [OnceReject err],
                     Some (Rejected err))))"

fun once_step :: "client \<Rightarrow> req_event \<Rightarrow> once \<Rightarrow> once \<times> effect list" where
  "once_step c Cancel s = once_cancel s"
| "once_step c (Complete outcome) s =
     (case once_complete c outcome s of (s', effs, x) \<Rightarrow> (s', effs))"

fun once_run :: "client \<Rightarrow> req_event list \<Rightarrow> once \<Rightarrow> once \<times> effect list" where
  "once_run c [] s = (s, [])"
| "once_run c (ev # evs) s =
     (case once_step c ev s of
        (s', effs) \<Rightarrow> (case once_run c evs s' of (s'', effs') \<Rightarrow> (s'', effs @ effs')))"

section \<open>The subscription loop\<close>

text \<open>The \<^verbatim>\<open>opts\<close> of \<^verbatim>\<open>subscription(path, opts)\<close>; a callback may throw.\<close>

record sub_opts =
  initialInput :: json
  onError :: "(thrown \<Rightarrow> thrown option) option"
  onData :: "(json \<Rightarrow> thrown option) option"
  nextInput :: "json \<Rightarrow> thrown + json"

text \<open>
  Where the loop stands: \<^verbatim>\<open>exec(input)\<close> waits at \<^verbatim>\<open>await currentPromise\<close> for the
  \<^verbatim>\<open>subscriptionOnce\<close> promise at the given address; or \<^verbatim>\<open>setTimeout\<close> holds
  \<^verbatim>\<open>() => exec(input)\<close> for the given delay; or \<^verbatim>\<open>exec\<close> has returned and nothing
  is scheduled.
\<close>

datatype control = Awaiting nat json | Scheduled nat json | Finished

text \<open>
  The closure of one call of \<^verbatim>\<open>subscription\<close>: the locals \<^verbatim>\<open>stopped\<close>,
  \<^verbatim>\<open>currentPromise\<close> and \<^verbatim>\<open>attemptIndex\<close>. The \<^verbatim>\<open>subscriptionOnce\<close> promises it
  created live in \<open>sb_heap\<close>; \<^verbatim>\<open>currentPromise\<close> and the \<^verbatim>\<open>await\<close> hold addresses
  into it, so that \<^verbatim>\<open>unsubscribe\<close> cancels the promise the variable refers to, which
  need not be one that is still awaited.
\<close>

record subscription =
  sb_stopped :: bool
  sb_currentPromise :: "nat option"
  sb_attemptIndex :: nat
  sb_heap :: "once list"
  sb_control :: control

text \<open>\<^verbatim>\<open>exec(input)\<close> up to its \<^verbatim>\<open>await\<close>.\<close>

definition sub_exec :: "client \<Rightarrow> string \<Rightarrow> json \<Rightarrow> subscription \<Rightarrow> subscription \<times> effect list" where
  "sub_exec c path input s =
     (let (p, effs) = subscriptionOnce c path input;
          i = length (sb_heap s)
      in (s\<lparr>sb_currentPromise := Some i, sb_heap := sb_heap s @ [p],
            sb_control := Awaiting i input\<rparr>, effs))"

text \<open>
  The \<^verbatim>\<open>catch\<close> clause of \<^verbatim>\<open>exec(input)\<close>. When \<^verbatim>\<open>opts.onError\<close> throws, the
  exception leaves \<^verbatim>\<open>exec\<close> before anything is scheduled.
\<close>

definition sub_catch :: "sub_opts \<Rightarrow> thrown \<Rightarrow> json \<Rightarrow> subscription \<Rightarrow> subscription \<times> effect list" where
  "sub_catch opts err input s =
     (if sb_stopped s then (s\<lparr>sb_control := Finished\<rparr>, [])
      else case onError opts of
             None \<Rightarrow>
               (s\<lparr>sb_attemptIndex := sb_attemptIndex s + 1,
                  sb_control := Scheduled (retryDelay (sb_attemptIndex s + 1)) input\<rparr>,
                [SetTimeout (retryDelay (sb_attemptIndex s + 1)) input])
           | Some callback \<Rightarrow>
               (case callback err of
                  Some t \<Rightarrow> (s\<lparr>sb_control := Finished\<rparr>, [OnError err])
                | None \<Rightarrow>
                    (s\<lparr>sb_attemptIndex := sb_attemptIndex s + 1,
                       sb_control := Scheduled (retryDelay (sb_attemptIndex s + 1)) input\<rparr>,
                     [OnError err, SetTimeout (retryDelay (sb_attemptIndex s + 1)) input])))"

text \<open>
  The \<^verbatim>\<open>try\<close> block of \<^verbatim>\<open>exec(input)\<close> after its \<^verbatim>\<open>await\<close> returned \<open>res\<close>.
\<close>

definition sub_resume ::
  "client \<Rightarrow> string \<Rightarrow> sub_opts \<Rightarrow> json \<Rightarrow> json \<Rightarrow> subscription \<Rightarrow> subscription \<times> effect list" where
  "sub_resume c path opts input res s =
     (let s0 = s\<lparr>sb_attemptIndex := 0\<rparr>;
          called = (case onData opts of None \<Rightarrow> [] | Some callback \<Rightarrow> [OnData res])
      in case (case onData opts of None \<Rightarrow> None | Some callback \<Rightarrow> callback res) of
           Some t \<Rightarrow>
             (let (s', effs) = sub_catch opts t input s0 in (s', called @ effs))
         | None \<Rightarrow>
             (case nextInput opts res of
                Inl t \<Rightarrow>
                  (let (s', effs) = sub_catch opts t input s0 in (s', called @ effs))
              | Inr next \<Rightarrow>
                  (let (s', effs) = sub_exec c path next s0 in (s', called @ effs))))"

definition subscription :: "client \<Rightarrow> string \<Rightarrow> sub_opts \<Rightarrow> subscription \<times> effect list" where
  "subscription c path opts =
     sub_exec c path (initialInput opts)
       \<lparr>sb_stopped = False, sb_currentPromise = None, sb_attemptIndex = 0,
        sb_heap = [], sb_control = Finished\<rparr>"

definition unsubscribe :: "subscription \<Rightarrow> subscription \<times> effect list" where
  "unsubscribe s =
     (case sb_currentPromise s of
        None \<Rightarrow> (s\<lparr>sb_stopped := True\<rparr>, [])
      | Some i \<Rightarrow>
          if i < length (sb_heap s)
          then (let (p, effs) = once_cancel (sb_heap s ! i)
                in (s\<lparr>sb_stopped := True, sb_currentPromise := None,
                      sb_heap := (sb_heap s)[i := p]\<rparr>, effs))
          else (s\<lparr>sb_stopped := True, sb_currentPromise := None\<rparr>, []))"

text \<open>The transport answers the request of the awaited promise.\<close>

definition sub_settle ::
  "client \<Rightarrow> string \<Rightarrow> sub_opts \<Rightarrow> fetch_outcome \<Rightarrow> subscription \<Rightarrow> subscription \<times> effect list" where
  "sub_settle c path opts outcome s =
     (case sb_control s of
        Awaiting i input \<Rightarrow>
          if i < length (sb_heap s)
          then (case once_complete c outcome (sb_heap s ! i) of
                  (p, effs, None) \<Rightarrow> (s\<lparr>sb_heap := (sb_heap s)[i := p]\<rparr>, effs)
                | (p, effs, Some (Resolved res)) \<Rightarrow>
                    (let (s', effs') =
                       sub_resume c path opts input res (s\<lparr>sb_heap := (sb_heap s)[i := p]\<rparr>)
                     in (s', effs @ effs'))
                | (p, effs, Some (Rejected err)) \<Rightarrow>
                    (let (s', effs') =
                       sub_catch opts (ThrownClient err) input (s\<lparr>sb_heap := (sb_heap s)[i := p]\<rparr>)
                     in (s', effs @ effs')))
          else (s, [])
      | Scheduled delay input \<Rightarrow> (s, [])
      | Finished \<Rightarrow> (s, []))"

text \<open>The timer fires and runs \<^verbatim>\<open>() => exec(input)\<close>.\<close>

definition sub_timeout :: "client \<Rightarrow> string \<Rightarrow> subscription \<Rightarrow> subscription \<times> effect list" where
  "sub_timeout c path s =
     (case sb_control s of
        Scheduled delay input \<Rightarrow> sub_exec c path input s
      | Awaiting i input \<Rightarrow> (s, [])
      | Finished \<Rightarrow> (s, []))"

datatype sub_event = Unsubscribe | Settle fetch_outcome | Timeout

fun sub_step ::
  "client \<Rightarrow> string \<Rightarrow> sub_opts \<Rightarrow> sub_event \<Rightarrow> subscription \<Rightarrow> subscription \<times> effect list" where
  "sub_step c path opts Unsubscribe s = unsubscribe s"
| "sub_step c path opts (Settle outcome) s = sub_settle c path opts outcome s"
| "sub_step c path opts Timeout s = sub_timeout c path s"

fun sub_run ::
  "client \<Rightarrow> string \<Rightarrow> sub_opts \<Rightarrow> sub_event list \<Rightarrow> subscription \<Rightarrow> subscription \<times> effect list" where
  "sub_run c path opts [] s = (s, [])"
| "sub_run c path opts (ev # evs) s =
     (case sub_step c path opts ev s of
        (s', effs) \<Rightarrow>
          (case sub_run c path opts evs s' of (s'', effs') \<Rightarrow> (s'', effs @ effs')))"

section \<open>Reading the effects\<close>

fun is_settle :: "effect \<Rightarrow> bool" where
  "is_settle (Resolve data) = True"
| "is_settle (Reject error) = True"
| "is_settle e = False"

fun is_once_settle :: "effect \<Rightarrow> bool" where
  "is_once_settle (OnceResolve data) = True"
| "is_once_settle (OnceReject error) = True"
| "is_once_settle e = False"

fun is_resolve :: "effect \<Rightarrow> bool" where
  "is_resolve (Resolve data) = True"
| "is_resolve e = False"

fun is_callback :: "effect \<Rightarrow> bool" where
  "is_callback (OnData data) = True"
| "is_callback (OnError err) = True"
| "is_callback e = False"

fun is_fetch :: "effect \<Rightarrow> bool" where
  "is_fetch (Fetch u opts) = True"
| "is_fetch e = False"

fun is_abort :: "effect \<Rightarrow> bool" where
  "is_abort Abort = True"
| "is_abort e = False"

fun is_hook :: "effect \<Rightarrow> bool" where
  "is_hook (OnSuccessHook json) = True"
| "is_hook (OnErrorHook error) = True"
| "is_hook e = False"

text \<open>The current request of a \<^verbatim>\<open>subscriptionOnce\<close> can still be answered.\<close>

definition once_live :: "once \<Rightarrow> bool" where
  "once_live s = (case so_currentRequest s of None \<Rightarrow> False | Some r \<Rightarrow> rq_pending r)"


text \<open>The transport fails the call: what a transport that honours a raised signal does.\<close>

fun transport_fails :: "req_event \<Rightarrow> bool" where
  "transport_fails (Complete (JsonResolves res rawJson)) = False"
| "transport_fails ev = True"

fun is_answer :: "req_event \<Rightarrow> bool" where
  "is_answer (Complete outcome) = True"
| "is_answer Cancel = False"


text \<open>\<^verbatim>\<open>executeRequest\<close> returns a result for this answer of the transport.\<close>

definition returns :: "client \<Rightarrow> fetch_outcome \<Rightarrow> bool" where
  "returns c outcome = (case snd (executeRequest c outcome) of Inl t \<Rightarrow> False | Inr r \<Rightarrow> True)"

fun answer_returns :: "client \<Rightarrow> req_event \<Rightarrow> bool" where
  "answer_returns c (Complete outcome) = returns c outcome"
| "answer_returns c Cancel = True"

text \<open>
  The answer makes \<^verbatim>\<open>subscriptionOnce\<close> call \<^verbatim>\<open>exec()\<close> again: the request is rejected
  with an error whose \<^verbatim>\<open>json?.statusCode\<close> is 408.
\<close>

definition reconnects :: "client \<Rightarrow> fetch_outcome \<Rightarrow> bool" where
  "reconnects c outcome =
     (case executeRequest c outcome of
        (effs, Inr (Failure err)) \<Rightarrow> opt_prop (ce_json err) ''statusCode'' = JNum 408
      | (effs, Inr (Ok data)) \<Rightarrow> False
      | (effs, Inl t) \<Rightarrow> False)"

text \<open>
  Read off a run's events alone, whether the promise of \<^verbatim>\<open>subscriptionOnce\<close> gets
  settled: some answer is not a 408 reconnect, and every 408 answer before it came while
  \<^verbatim>\<open>cancel()\<close> had not been called (the first argument).
\<close>

fun once_settles :: "client \<Rightarrow> bool \<Rightarrow> req_event list \<Rightarrow> bool" where
  "once_settles c cancelled [] = False"
| "once_settles c cancelled (Cancel # evs) = once_settles c True evs"
| "once_settles c cancelled (Complete outcome # evs) =
     (if reconnects c outcome then \<not> cancelled \<and> once_settles c cancelled evs else True)"

section \<open>A platform and a client for the examples\<close>

text \<open>
  \<^verbatim>\<open>JSON.stringify\<close> on the values of \<open>json\<close> (an \<^verbatim>\<open>undefined\<close> property is left
  out, an \<^verbatim>\<open>undefined\<close> array element reads \<^verbatim>\<open>null\<close>; of a string's characters only
  the quote and the backslash are escaped) and \<^verbatim>\<open>encodeURIComponent\<close> on ASCII text.
  The theorems below hold for any two functions in their place; the examples use these.
\<close>

fun digits :: "nat \<Rightarrow> string" where
  "digits n =
     (if n < 10 then [''0123456789'' ! n]
      else digits (n div 10) @ [''0123456789'' ! (n mod 10)])"

declare digits.simps [simp del]

definition show_int :: "int \<Rightarrow> string" where
  "show_int i = (if i < 0 then CHR ''-'' # digits (nat (- i)) else digits (nat i))"

fun join :: "string \<Rightarrow> string list \<Rightarrow> string" where
  "join sep [] = []"
| "join sep [x] = x"
| "join sep (x # y # ys) = x @ sep @ join sep (y # ys)"

definition quote :: "string \<Rightarrow> string" where
  "quote s =
     [CHR 0x22] @
     concat (map (\<lambda>ch. if ch = CHR 0x22 \<or> ch = CHR 0x5C then [CHR 0x5C, ch] else [ch]) s) @
     [CHR 0x22]"

fun stringify :: "json \<Rightarrow> string" where
  "stringify JUndefined = ''undefined''"
| "stringify JNull = ''null''"
| "stringify (JBool b) = (if b then ''true'' else ''false'')"
| "stringify (JNum n) = show_int n"
| "stringify (JStr s) = quote s"
| "stringify (JArr xs) =
     ''['' @ join '','' (map (\<lambda>x. if x = JUndefined then ''null'' else stringify x) xs) @ '']''"
| "stringify (JObj kvs) =
     ''{'' @ join '',''
       (map (\<lambda>kv. quote (fst kv) @ '':'' @ stringify (snd kv))
          (filter (\<lambda>kv. snd kv \<noteq> JUndefined) kvs)) @ ''}''"

definition unreserved :: "char \<Rightarrow> bool" where
  "unreserved ch =
     (ch \<in> set (''ABCDEFGHIJKLMNOPQRSTUVWXYZabcdefghijklmnopqrstuvwxyz0123456789-_.!~*()'' @
                [CHR 0x27]))"

definition hex :: "nat \<Rightarrow> char" where
  "hex n = ''0123456789ABCDEF'' ! n"

definition percent_encode :: "string \<Rightarrow> string" where
  "percent_encode s =
     concat (map (\<lambda>ch. if unreserved ch then [ch]
                        else [CHR ''%'', hex (of_char ch div 16), hex (of_char ch mod 16)]) s)"

text \<open>A client with both hooks configured and an abort capability.\<close>

definition example_client :: client where
  "example_client =
     \<lparr>opts_url = ''http://localhost/trpc'', opts_getHeaders = None,
      opts_onSuccess = Some (\<lambda>json. None), opts_onError = Some (\<lambda>error. None),
      this_transformer = default_transformer, this_AC = True,
      JSON_stringify = stringify, encodeURIComponent = percent_encode\<rparr>"

text \<open>The same client, whose caller supplies a \<^verbatim>\<open>content-type\<close> header.\<close>

definition text_client :: client where
  "text_client =
     example_client\<lparr>opts_getHeaders := Some [(''content-type'', ''text/plain'')]\<rparr>"



text \<open>
  A transformer that wraps every value, \<^verbatim>\<open>undefined\<close> too, and the example client with
  it.
\<close>

definition wrap_transformer :: transformer where
  "wrap_transformer =
     \<lparr>serialize = (\<lambda>data. JObj [(''json'', data)]),
      deserialize = (\<lambda>data. Inr (opt_prop data ''json''))\<rparr>"

definition wrap_client :: client where
  "wrap_client = example_client\<lparr>this_transformer := wrap_transformer\<rparr>"

text \<open>
  \<^verbatim>\<open>{initialInput: 0, nextInput: d => d.length, onData, onError}\<close>, as in the spec's
  scenario.
\<close>

definition example_opts :: sub_opts where
  "example_opts =
     \<lparr>initialInput = JNum 0, onError = Some (\<lambda>err. None), onData = Some (\<lambda>data. None),
      nextInput =
        (\<lambda>data. case data of JArr xs \<Rightarrow> Inr (JNum (int (length xs)))
                  | JUndefined \<Rightarrow> Inl (Thrown (TypeError ''length''))
                  | JNull \<Rightarrow> Inl (Thrown (TypeError ''length''))
                  | JStr s \<Rightarrow> Inr (JNum (int (length s)))
                  | JBool b \<Rightarrow> Inr JUndefined
                  | JNum n \<Rightarrow> Inr JUndefined
                  | JObj kvs \<Rightarrow> Inr (opt_prop data ''length''))\<rparr>"

text \<open>The same callbacks, with a \<^verbatim>\<open>nextInput\<close> that always throws.\<close>

definition throwing_opts :: sub_opts where
  "throwing_opts =
     example_opts\<lparr>nextInput := (\<lambda>data. Inl (Thrown (JsError ''Error'' ''no cursor'')))\<rparr>"

text \<open>The example callbacks, with an \<^verbatim>\<open>onError\<close> that always throws.\<close>

definition failing_opts :: sub_opts where
  "failing_opts =
     example_opts\<lparr>onError := (Some (\<lambda>err. Some (Thrown (JsError ''Error'' ''handler failed''))))\<rparr>"

text \<open>Throwing \<^verbatim>\<open>nextInput\<close> and throwing \<^verbatim>\<open>onError\<close> together.\<close>

definition throwing_failing_opts :: sub_opts where
  "throwing_failing_opts =
     throwing_opts\<lparr>onError := (Some (\<lambda>err. Some (Thrown (JsError ''Error'' ''handler failed''))))\<rparr>"

text \<open>\<^verbatim>\<open>{ok: true, data}\<close>.\<close>

definition success_envelope :: "json \<Rightarrow> json" where
  "success_envelope data = JObj [(''ok'', JBool True), (''data'', data)]"

text \<open>
  \<^verbatim>\<open>{ok: false, error: {message, statusCode}}\<close>: the Failure Envelope of the spec's data
  model, with the status code inside the error object.
\<close>

definition failure_envelope :: "string \<Rightarrow> int \<Rightarrow> json" where
  "failure_envelope message statusCode =
     JObj [(''ok'', JBool False),
           (''error'', JObj [(''message'', JStr message), (''statusCode'', JNum statusCode)])]"

text \<open>
  \<^verbatim>\<open>{ok: false, statusCode, error: {message}}\<close>: a failure envelope with the status code
  on the envelope itself, which is where \<^verbatim>\<open>subscriptionOnce\<close> reads it.
\<close>

definition status_envelope :: "string \<Rightarrow> int \<Rightarrow> json" where
  "status_envelope message statusCode =
     JObj [(''ok'', JBool False), (''statusCode'', JNum statusCode),
           (''error'', JObj [(''message'', JStr message)])]"

section \<open>Evaluation\<close>

text \<open>The definitions a run of the client on concrete inputs unfolds.\<close>

lemmas eval_defs =
  executeRequest_def catch_block_def request_complete_def request_def reqOpts_def reqOptsMap_def
  getHeaders_def spread_def serializeInput_def cancel_def
  once_exec_def once_cancel_def once_complete_def subscriptionOnce_def
  TRPCClientError_def opt_prop_def nullish_def Let_def
  example_client_def default_transformer_def success_envelope_def failure_envelope_def
  status_envelope_def

lemmas sub_defs =
  sub_exec_def sub_catch_def sub_resume_def subscription_def unsubscribe_def sub_settle_def
  sub_timeout_def example_opts_def throwing_opts_def failing_opts_def throwing_failing_opts_def retryDelay_def

section \<open>The request builder\<close>

lemma map_of_spread:
  "map_of (spread base ext) = map_of base ++ map_of (rev ext)"
  unfolding spread_def
proof (induction ext arbitrary: base)
  case Nil
  show ?case by simp
next
  case (Cons kv ext)
  have "map_of (foldl (\<lambda>acc kv. AList.update (fst kv) (snd kv) acc) (AList.update (fst kv) (snd kv) base) ext)
        = map_of (AList.update (fst kv) (snd kv) base) ++ map_of (rev ext)"
    by (rule Cons.IH)
  also have "\<dots> = map_of base ++ map_of (rev (kv # ext))"
    by (cases kv) (simp add: update_conv' map_add_upd_left fun_eq_iff map_add_def split: option.splits)
  finally show ?case by simp
qed

text \<open>
  C7, as amended. A query's URL is \<^verbatim>\<open>url + "/" + path\<close> with nothing after it exactly
  when the input is \<^verbatim>\<open>undefined\<close> or \<^verbatim>\<open>null\<close> (the test is \<^verbatim>\<open>input != null\<close>);
  for every other input, the empty ones included, it ends in \<^verbatim>\<open>?input=\<close> followed by the
  percent-encoded JSON text of the transformer-serialized input.
\<close>

theorem query_input_parameter:
  "ro_url (reqOptsMap c Query input path) =
     (if input = JUndefined \<or> input = JNull then opts_url c @ ''/'' @ path
      else opts_url c @ ''/'' @ path @ ''?input='' @
           encodeURIComponent c (JSON_stringify c (serialize (this_transformer c) input)))
   \<and> ((ro_url (reqOptsMap c Query input path) = opts_url c @ ''/'' @ path)
        = (input = JUndefined \<or> input = JNull))"
  by (simp add: reqOptsMap_def nullish_def serializeInput_def)

text \<open>
  C7 as stated fails: \<^verbatim>\<open>query('getUser', null)\<close> passes an input that is present and
  null, and the parameter is left out.
\<close>

theorem query_null_input_counterexample:
  "ro_url (reqOptsMap example_client Query JNull ''getUser'') = ''http://localhost/trpc/getUser''"
  by (simp add: reqOptsMap_def nullish_def example_client_def)

text \<open>Present inputs, an object and the empty string, are sent.\<close>

lemma query_example:
  "ro_url (reqOptsMap example_client Query (JObj [(''id'', JNum 1)]) ''getUser'')
     = ''http://localhost/trpc/getUser?input=%7B%22id%22%3A1%7D''"
  by code_simp

lemma query_example2:
  "ro_url (reqOptsMap example_client Query (JStr []) ''getUser'')
     = ''http://localhost/trpc/getUser?input=%22%22''"
  by code_simp

text \<open>
  C8, as amended. A query is a GET without a body, a mutation a POST and a subscription a
  PATCH, both with the body \<^verbatim>\<open>JSON.stringify({input: x})\<close>, where \<open>x\<close> is the
  transformer's \<^verbatim>\<open>serialize(input)\<close> for every input but \<^verbatim>\<open>undefined\<close>, which is passed
  on as it is; the URL is \<^verbatim>\<open>url + "/" + path\<close> (for a query, followed by the input
  parameter if any); one call of the transport is made with it. The headers are the
  caller-supplied ones, and \<^verbatim>\<open>content-type: application/json\<close> unless the caller
  supplies a \<^verbatim>\<open>content-type\<close> of its own, which then replaces it.
\<close>

theorem request_wire_contract:
  "ri_method (reqOpts c Query input path) = ''GET''
   \<and> ri_body (reqOpts c Query input path) = None
   \<and> ri_method (reqOpts c Mutation input path) = ''POST''
   \<and> ri_method (reqOpts c Subscription input path) = ''PATCH''
   \<and> ri_body (reqOpts c Mutation input path)
       = Some (JSON_stringify c
                 (JObj [(''input'',
                         if input = JUndefined then JUndefined
                         else serialize (this_transformer c) input)]))
   \<and> ri_body (reqOpts c Subscription input path)
       = Some (JSON_stringify c
                 (JObj [(''input'',
                         if input = JUndefined then JUndefined
                         else serialize (this_transformer c) input)]))
   \<and> rq_url (fst (request c Mutation input path)) = opts_url c @ ''/'' @ path
   \<and> rq_url (fst (request c Subscription input path)) = opts_url c @ ''/'' @ path
   \<and> take (length (opts_url c @ ''/'' @ path)) (rq_url (fst (request c Query input path)))
       = opts_url c @ ''/'' @ path
   \<and> snd (request c ty input path)
       = [Fetch (ro_url (reqOptsMap c ty input path)) (reqOpts c ty input path)]
   \<and> map_of (ri_headers (reqOpts c ty input path)) k
       = (case map_of (rev (case opts_getHeaders c of Some h \<Rightarrow> h | None \<Rightarrow> [])) k of
            Some v \<Rightarrow> Some v
          | None \<Rightarrow> if k = ''content-type'' then Some ''application/json'' else None)"
  by (auto simp add: reqOpts_def reqOptsMap_def request_def getHeaders_def map_of_spread
        map_add_def serializeInput_def Let_def split: option.splits)

text \<open>
  C8 as stated fails twice. With \<^verbatim>\<open>getHeaders: () => ({'content-type': 'text/plain'})\<close>
  the request does not carry \<^verbatim>\<open>content-type: application/json\<close>. And with a transformer
  that wraps every value, \<^verbatim>\<open>mutation('ping')\<close> sends the body \<^verbatim>\<open>{}\<close>: the absent input
  is not serialized, so the body is not \<^verbatim>\<open>{"input": serialize(input)}\<close>.
\<close>

theorem content_type_override_counterexample:
  "ri_headers (reqOpts text_client Mutation (JObj [(''name'', JStr ''B'')]) ''createUser'')
     = [(''content-type'', ''text/plain'')]
   \<and> ri_body (reqOpts wrap_client Mutation JUndefined ''ping'') = Some ''{}''
   \<and> ri_body (reqOpts wrap_client Mutation JUndefined ''ping'')
       \<noteq> Some (JSON_stringify wrap_client
                 (JObj [(''input'', serialize (this_transformer wrap_client) JUndefined)]))"
  by (simp add: reqOpts_def reqOptsMap_def getHeaders_def spread_def serializeInput_def
        text_client_def wrap_client_def wrap_transformer_def example_client_def Let_def)

section \<open>The request executor\<close>

lemma catch_block_effects:
  "filter is_settle (fst (catch_block c res json t)) = []
   \<and> filter is_abort (fst (catch_block c res json t)) = []
   \<and> filter is_once_settle (fst (catch_block c res json t)) = []
   \<and> filter is_resolve (fst (catch_block c res json t)) = []"
  by (simp add: catch_block_def split: option.splits sum.splits thrown.splits)

lemma executeRequest_effects:
  "filter is_settle (fst (executeRequest c outcome)) = []
   \<and> filter is_abort (fst (executeRequest c outcome)) = []
   \<and> filter is_once_settle (fst (executeRequest c outcome)) = []
   \<and> filter is_resolve (fst (executeRequest c outcome)) = []"
  using catch_block_effects [of c]
  by (simp add: executeRequest_def split_beta
           split: fetch_outcome.splits sum.splits option.splits)

lemma catch_block_not_ok:
  "snd (catch_block c res json t) \<noteq> Inr (Ok data)"
  by (simp add: catch_block_def split: option.splits sum.splits thrown.splits)







text \<open>
  C6 at its failing input. The client has an error hook; the transport answers with the
  failure envelope \<^verbatim>\<open>{ok: false, error: {message: 'conflict', statusCode: 409}}\<close>.
  \<^verbatim>\<open>executeRequest\<close> returns \<^verbatim>\<open>{ok: false, error}\<close> from inside its \<^verbatim>\<open>try\<close> block and
  calls no hook at all, while on a transport failure the \<^verbatim>\<open>catch\<close> clause calls the
  error hook once.
\<close>

theorem envelope_failure_skips_onError:
  "opts_onError example_client \<noteq> None
   \<and> executeRequest example_client
       (JsonResolves (Response 409) (failure_envelope ''conflict'' 409))
     = ([], Inr (Failure \<lparr>ce_message = JStr ''conflict'', ce_res = Some (Response 409),
                           ce_json = failure_envelope ''conflict'' 409, ce_originalError = None,
                           ce_shape = JObj [(''message'', JStr ''conflict''), (''statusCode'', JNum 409)]\<rparr>))
   \<and> fst (executeRequest example_client (FetchRejects (Thrown (JsError ''TypeError'' ''Failed to fetch''))))
     = [OnErrorHook \<lparr>ce_message = JStr ''Failed to fetch'', ce_res = None, ce_json = JNull,
           ce_originalError = Some (JsError ''TypeError'' ''Failed to fetch''), ce_shape = JUndefined\<rparr>]"
  by (simp add: executeRequest_def catch_block_def example_client_def default_transformer_def
        failure_envelope_def opt_prop_def TRPCClientError_def Let_def)

section \<open>Settlement of the promises\<close>

lemma request_complete_cases:
  "request_complete c outcome r =
     (if \<not> rq_pending r then (r, [], None)
      else case snd (executeRequest c outcome) of
             Inl t \<Rightarrow> (r\<lparr>rq_pending := False\<rparr>, fst (executeRequest c outcome), None)
           | Inr (Ok data) \<Rightarrow>
               (r\<lparr>rq_settled := True, rq_pending := False\<rparr>,
                fst (executeRequest c outcome) @ [Resolve data], Some (Resolved data))
           | Inr (Failure error) \<Rightarrow>
               (r\<lparr>rq_settled := True, rq_pending := False\<rparr>,
                fst (executeRequest c outcome) @ [Reject error], Some (Rejected error)))"
  by (cases "executeRequest c outcome")
     (auto simp: request_complete_def split: sum.splits result.splits)

lemma cancel_effects:
  "filter is_settle (snd (cancel r)) = [] \<and> filter is_resolve (snd (cancel r)) = []
   \<and> filter is_once_settle (snd (cancel r)) = []
   \<and> rq_pending (fst (cancel r)) = rq_pending r \<and> rq_settled (fst (cancel r)) = rq_settled r"
  by (auto simp: cancel_def split: option.splits)

lemma request_step_not_pending:
  assumes "\<not> rq_pending r"
  shows "filter is_settle (snd (request_step c ev r)) = [] \<and> \<not> rq_pending (fst (request_step c ev r))"
  using assms cancel_effects [of r]
  by (cases ev) (auto simp: request_complete_cases)

lemma request_run_not_pending:
  "\<not> rq_pending r \<Longrightarrow> filter is_settle (snd (request_run c evs r)) = []"
proof (induction evs arbitrary: r)
  case Nil
  show ?case by simp
next
  case (Cons ev evs)
  from request_step_not_pending [OF Cons.prems, of c ev]
  have a: "filter is_settle (snd (request_step c ev r)) = []"
    and b: "\<not> rq_pending (fst (request_step c ev r))" by auto
  from Cons.IH [OF b] a show ?case
    by (simp add: split_beta)
qed

lemma request_step_settles:
  "length (filter is_settle (snd (request_step c ev r))) \<le> 1
   \<and> (filter is_settle (snd (request_step c ev r)) \<noteq> [] \<longrightarrow> \<not> rq_pending (fst (request_step c ev r)))"
  using cancel_effects [of r] executeRequest_effects [of c]
  by (cases ev) (auto simp: request_complete_cases split: sum.splits result.splits)

lemma request_run_at_most_once:
  "length (filter is_settle (snd (request_run c evs r))) \<le> 1"
proof (induction evs arbitrary: r)
  case Nil
  show ?case by simp
next
  case (Cons ev evs)
  show ?case
  proof (cases "filter is_settle (snd (request_step c ev r)) = []")
    case True
    with Cons.IH [of "fst (request_step c ev r)"] show ?thesis by (simp add: split_beta)
  next
    case False
    with request_step_settles [of c ev r]
    have "\<not> rq_pending (fst (request_step c ev r))"
      and "length (filter is_settle (snd (request_step c ev r))) \<le> 1" by auto
    with request_run_not_pending [of "fst (request_step c ev r)" c evs]
    show ?thesis by (simp add: split_beta)
  qed
qed

lemma request_complete_settles:
  assumes "returns c outcome" and "rq_pending r"
  shows "length (filter is_settle (snd (request_step c (Complete outcome) r))) = 1
         \<and> \<not> rq_pending (fst (request_step c (Complete outcome) r))
         \<and> rq_settled (fst (request_step c (Complete outcome) r))
         \<and> filter is_abort (snd (request_step c (Complete outcome) r)) = []"
  using assms executeRequest_effects [of c outcome]
  by (auto simp: request_complete_cases returns_def split: sum.splits result.splits)

lemma request_run_exact:
  "\<forall>ev \<in> set evs. answer_returns c ev \<Longrightarrow> rq_pending r \<Longrightarrow>
   length (filter is_settle (snd (request_run c evs r)))
     = (if \<exists>ev \<in> set evs. is_answer ev then 1 else 0)"
proof (induction evs arbitrary: r)
  case Nil
  then show ?case by simp
next
  case (Cons ev evs)
  show ?case
  proof (cases ev)
    case Cancel
    from Cons.prems cancel_effects [of r] have "rq_pending (fst (cancel r))" by simp
    with Cons.prems
    have "length (filter is_settle (snd (request_run c evs (fst (cancel r)))))
            = (if \<exists>ev \<in> set evs. is_answer ev then 1 else 0)"
      by (intro Cons.IH) simp_all
    with Cancel cancel_effects [of r] show ?thesis by (simp add: split_beta)
  next
    case (Complete o')
    with Cons.prems have "returns c o'" by simp
    from request_complete_settles [OF this Cons.prems(2)]
    have a: "length (filter is_settle (snd (request_step c (Complete o') r))) = 1"
      and b: "\<not> rq_pending (fst (request_step c (Complete o') r))" by auto
    from request_run_not_pending [OF b, of c evs] a Complete show ?thesis
      by (simp add: split_beta)
  qed
qed

lemma once_cancel_effects:
  "filter is_once_settle (snd (once_cancel s)) = []
   \<and> once_live (fst (once_cancel s)) = once_live s
   \<and> so_stopped (fst (once_cancel s))"
  using cancel_effects
  by (auto simp: once_cancel_def once_live_def split_beta split: option.splits)

lemma once_step_dead:
  assumes "\<not> once_live s"
  shows "filter is_once_settle (snd (once_step c ev s)) = [] \<and> \<not> once_live (fst (once_step c ev s))"
proof (cases ev)
  case Cancel
  with assms once_cancel_effects [of s] show ?thesis by simp
next
  case (Complete outcome)
  with assms show ?thesis
    by (auto simp: once_complete_def once_live_def request_complete_cases split: option.splits)
qed

lemma once_run_dead:
  "\<not> once_live s \<Longrightarrow> filter is_once_settle (snd (once_run c evs s)) = []"
proof (induction evs arbitrary: s)
  case Nil
  show ?case by simp
next
  case (Cons ev evs)
  from once_step_dead [OF Cons.prems, of c ev]
  have a: "filter is_once_settle (snd (once_step c ev s)) = []"
    and b: "\<not> once_live (fst (once_step c ev s))" by auto
  from Cons.IH [OF b] a show ?case by (simp add: split_beta)
qed

lemma request_effects:
  "filter is_once_settle (snd (request c ty input path)) = []
   \<and> rq_pending (fst (request c ty input path))
   \<and> \<not> rq_settled (fst (request c ty input path))"
  by (simp add: request_def Let_def)

lemma once_exec_effects:
  "filter is_once_settle (snd (once_exec c s)) = []
   \<and> so_stopped (fst (once_exec c s)) = so_stopped s
   \<and> (\<not> so_stopped s \<longrightarrow> once_live (fst (once_exec c s)))
   \<and> (so_stopped s \<longrightarrow> fst (once_exec c s) = s)"
  using request_effects [of c Subscription "so_input s" "so_path s"]
  by (auto simp: once_exec_def once_live_def split_beta)

lemma once_complete_step:
  "length (filter is_once_settle (snd (once_step c (Complete outcome) s))) \<le> 1
   \<and> (filter is_once_settle (snd (once_step c (Complete outcome) s)) \<noteq> []
        \<longrightarrow> \<not> once_live (fst (once_step c (Complete outcome) s)))"
proof (cases "so_currentRequest s")
  case None
  then show ?thesis by (simp add: once_complete_def)
next
  case (Some r)
  show ?thesis
  proof (cases "rq_pending r")
    case False
    with Some show ?thesis by (simp add: once_complete_def request_complete_cases)
  next
    case True
    note ee = executeRequest_effects [of c outcome]
    show ?thesis
    proof (cases "snd (executeRequest c outcome)")
      case (Inl t)
      with Some True ee show ?thesis
        by (simp add: once_complete_def request_complete_cases)
    next
      case (Inr res)
      show ?thesis
      proof (cases res)
        case (Ok data)
        with Some True Inr ee show ?thesis
          by (simp add: once_complete_def request_complete_cases once_live_def)
      next
        case (Failure err)
        show ?thesis
        proof (cases "opt_prop (ce_json err) ''statusCode'' = JNum 408")
          case False
          with Some True Inr Failure ee show ?thesis
            by (simp add: once_complete_def request_complete_cases once_live_def)
        next
          case is408: True
          with Some True Inr Failure ee
            once_exec_effects [of c "s\<lparr>so_currentRequest := Some (r\<lparr>rq_settled := True, rq_pending := False\<rparr>)\<rparr>"]
          show ?thesis
            by (simp add: once_complete_def request_complete_cases split_beta)
        qed
      qed
    qed
  qed
qed

lemma once_step_settles:
  "length (filter is_once_settle (snd (once_step c ev s))) \<le> 1
   \<and> (filter is_once_settle (snd (once_step c ev s)) \<noteq> [] \<longrightarrow> \<not> once_live (fst (once_step c ev s)))"
proof (cases ev)
  case Cancel
  with once_cancel_effects [of s] show ?thesis by simp
next
  case (Complete outcome)
  with once_complete_step [of c outcome s] show ?thesis by simp
qed

lemma once_run_at_most_once:
  "length (filter is_once_settle (snd (once_run c evs s))) \<le> 1"
proof (induction evs arbitrary: s)
  case Nil
  show ?case by simp
next
  case (Cons ev evs)
  show ?case
  proof (cases "filter is_once_settle (snd (once_step c ev s)) = []")
    case True
    with Cons.IH [of "fst (once_step c ev s)"] show ?thesis by (simp add: split_beta)
  next
    case False
    with once_step_settles [of c ev s]
    have "\<not> once_live (fst (once_step c ev s))"
      and "length (filter is_once_settle (snd (once_step c ev s))) \<le> 1" by auto
    with once_run_dead [of "fst (once_step c ev s)" c evs]
    show ?thesis by (simp add: split_beta)
  qed
qed

lemma once_complete_live:
  assumes "returns c outcome" and "once_live s"
  shows "(reconnects c outcome \<and> \<not> so_stopped s \<longrightarrow>
            filter is_once_settle (snd (once_step c (Complete outcome) s)) = []
            \<and> once_live (fst (once_step c (Complete outcome) s))
            \<and> \<not> so_stopped (fst (once_step c (Complete outcome) s)))
       \<and> (reconnects c outcome \<and> so_stopped s \<longrightarrow>
            filter is_once_settle (snd (once_step c (Complete outcome) s)) = []
            \<and> \<not> once_live (fst (once_step c (Complete outcome) s)))
       \<and> (\<not> reconnects c outcome \<longrightarrow>
            length (filter is_once_settle (snd (once_step c (Complete outcome) s))) = 1
            \<and> \<not> once_live (fst (once_step c (Complete outcome) s)))"
proof -
  from assms(2) obtain r where r: "so_currentRequest s = Some r" "rq_pending r"
    by (auto simp: once_live_def split: option.splits)
  from assms(1) obtain res where res: "snd (executeRequest c outcome) = Inr res"
    by (auto simp: returns_def split: sum.splits)
  note ee = executeRequest_effects [of c outcome]
  show ?thesis
  proof (cases res)
    case (Ok data)
    with r res ee show ?thesis
      by (simp add: once_complete_def request_complete_cases once_live_def reconnects_def split_beta)
  next
    case (Failure err)
    show ?thesis
    proof (cases "opt_prop (ce_json err) ''statusCode'' = JNum 408")
      case False
      with r res Failure ee show ?thesis
        by (simp add: once_complete_def request_complete_cases once_live_def reconnects_def split_beta)
    next
      case True
      with r res Failure ee
        once_exec_effects [of c "s\<lparr>so_currentRequest := Some (r\<lparr>rq_settled := True, rq_pending := False\<rparr>)\<rparr>"]
      show ?thesis
        by (auto simp: once_complete_def request_complete_cases reconnects_def split_beta once_live_def)
    qed
  qed
qed

lemma once_run_exact:
  "\<forall>ev \<in> set evs. answer_returns c ev \<Longrightarrow> once_live s \<Longrightarrow>
   length (filter is_once_settle (snd (once_run c evs s)))
     = (if once_settles c (so_stopped s) evs then 1 else 0)"
proof (induction evs arbitrary: s)
  case Nil
  then show ?case by simp
next
  case (Cons ev evs)
  show ?case
  proof (cases ev)
    case Cancel
    from Cons.prems once_cancel_effects [of s]
    have l: "once_live (fst (once_cancel s))" and st: "so_stopped (fst (once_cancel s))"
      and e: "filter is_once_settle (snd (once_cancel s)) = []" by simp_all
    from Cons.prems have "\<forall>ev \<in> set evs. answer_returns c ev" by simp
    from Cons.IH [OF this l] st e Cancel show ?thesis by (simp add: split_beta)
  next
    case (Complete o')
    with Cons.prems have ret: "returns c o'" by simp
    from Cons.prems have rest: "\<forall>ev \<in> set evs. answer_returns c ev" by simp
    note step = once_complete_live [OF ret Cons.prems(2)]
    show ?thesis
    proof (cases "reconnects c o'")
      case False
      with step have a: "length (filter is_once_settle (snd (once_step c (Complete o') s))) = 1"
        and b: "\<not> once_live (fst (once_step c (Complete o') s))" by auto
      from once_run_dead [OF b, of c evs] a Complete False show ?thesis
        by (simp add: split_beta)
    next
      case True
      show ?thesis
      proof (cases "so_stopped s")
        case stopped: True
        with step True have a: "filter is_once_settle (snd (once_step c (Complete o') s)) = []"
          and b: "\<not> once_live (fst (once_step c (Complete o') s))" by auto
        from once_run_dead [OF b, of c evs] a Complete True stopped show ?thesis
          by (simp add: split_beta)
      next
        case running: False
        with step True have a: "filter is_once_settle (snd (once_step c (Complete o') s)) = []"
          and l: "once_live (fst (once_step c (Complete o') s))"
          and n: "\<not> so_stopped (fst (once_step c (Complete o') s))" by auto
        from Cons.IH [OF rest l] n a Complete True running show ?thesis
          by (simp add: split_beta)
      qed
    qed
  qed
qed

lemma once_settles_no_reconnect:
  "\<exists>ev \<in> set evs. is_answer ev \<Longrightarrow> \<forall>outcome. Complete outcome \<in> set evs \<longrightarrow> \<not> reconnects c outcome \<Longrightarrow>
   once_settles c cancelled evs"
proof (induction evs arbitrary: cancelled)
  case Nil
  then show ?case by simp
next
  case (Cons ev evs)
  then show ?case by (cases ev) auto
qed

lemma subscriptionOnce_live:
  "once_live (fst (subscriptionOnce c path input)) \<and> \<not> so_stopped (fst (subscriptionOnce c path input))"
  by (simp add: subscriptionOnce_def once_exec_def request_def once_live_def Let_def)

text \<open>
  C3, as amended. Whatever the caller and the transport do, and in whatever order, the
  promise of \<^verbatim>\<open>request\<close> (so of \<^verbatim>\<open>query\<close> and \<^verbatim>\<open>mutation\<close>) and the promise of
  \<^verbatim>\<open>subscriptionOnce\<close> are each resolved or rejected at most once. Where
  \<^verbatim>\<open>executeRequest\<close> returns for every answer of the transport: the promise of
  \<^verbatim>\<open>request\<close> is settled exactly once as soon as the transport answers, and not before;
  the promise of \<^verbatim>\<open>subscriptionOnce\<close> is settled exactly once if some answer is not a
  408 reconnect and every 408 answer before it came while \<^verbatim>\<open>cancel()\<close> had not been
  called (\<open>once_settles\<close>), and is not settled otherwise. In particular
  \<^verbatim>\<open>cancel()\<close> alone does not keep it from settling (\<open>once_settles_no_reconnect\<close>).
\<close>

theorem settles_at_most_once:
  "length (filter is_settle (snd (request_run c evs (fst (request c ty input path))))) \<le> 1
   \<and> ((\<forall>ev \<in> set evs. answer_returns c ev) \<longrightarrow>
        length (filter is_settle (snd (request_run c evs (fst (request c ty input path)))))
          = (if \<exists>ev \<in> set evs. is_answer ev then 1 else 0))
   \<and> length (filter is_once_settle (snd (once_run c evs (fst (subscriptionOnce c path input))))) \<le> 1
   \<and> ((\<forall>ev \<in> set evs. answer_returns c ev) \<longrightarrow>
        length (filter is_once_settle (snd (once_run c evs (fst (subscriptionOnce c path input)))))
          = (if once_settles c False evs then 1 else 0))"
  using request_run_at_most_once [of c evs "fst (request c ty input path)"]
    request_run_exact [of evs c "fst (request c ty input path)"]
    request_effects [of c ty input path]
    once_run_at_most_once [of c evs "fst (subscriptionOnce c path input)"]
    once_run_exact [of evs c "fst (subscriptionOnce c path input)"]
    subscriptionOnce_live [of c path input]
  by simp

theorem settles_at_most_once_witness:
  "answer_returns example_client
      (Complete (JsonResolves (Response 200) (status_envelope ''reconnect'' 408)))
   \<and> answer_returns example_client Cancel
   \<and> answer_returns example_client
      (Complete (FetchRejects (Thrown (JsError ''AbortError'' ''The operation was aborted''))))
   \<and> once_settles example_client False
        [Complete (JsonResolves (Response 200) (status_envelope ''reconnect'' 408)), Cancel,
         Complete (FetchRejects (Thrown (JsError ''AbortError'' ''The operation was aborted'')))]
   \<and> length (filter is_settle (snd (request_run example_client
        [Complete (JsonResolves (Response 200) (status_envelope ''reconnect'' 408)), Cancel,
         Complete (FetchRejects (Thrown (JsError ''AbortError'' ''The operation was aborted'')))]
        (fst (request example_client Subscription (JNum 0) ''poll''))))) = 1
   \<and> length (filter is_once_settle (snd (once_run example_client
        [Complete (JsonResolves (Response 200) (status_envelope ''reconnect'' 408)), Cancel,
         Complete (FetchRejects (Thrown (JsError ''AbortError'' ''The operation was aborted'')))]
        (fst (subscriptionOnce example_client ''poll'' (JNum 0)))))) = 1
   \<and> \<not> once_settles example_client False
        [Cancel, Complete (JsonResolves (Response 200) (status_envelope ''reconnect'' 408)),
         Complete (FetchRejects (Thrown (JsError ''AbortError'' ''The operation was aborted'')))]
   \<and> length (filter is_once_settle (snd (once_run example_client
        [Cancel, Complete (JsonResolves (Response 200) (status_envelope ''reconnect'' 408)),
         Complete (FetchRejects (Thrown (JsError ''AbortError'' ''The operation was aborted'')))]
        (fst (subscriptionOnce example_client ''poll'' (JNum 0)))))) = 0"
proof -
  let ?r408 = "JsonResolves (Response 200) (status_envelope ''reconnect'' 408)"
  let ?abort = "FetchRejects (Thrown (JsError ''AbortError'' ''The operation was aborted''))"
  have a: "answer_returns example_client (Complete ?r408)"
    and b: "answer_returns example_client Cancel"
    and d: "answer_returns example_client (Complete ?abort)"
    by (simp_all add: returns_def eval_defs)
  have r: "reconnects example_client ?r408" and n: "\<not> reconnects example_client ?abort"
    by (simp_all add: reconnects_def eval_defs)
  from settles_at_most_once
         [of example_client "[Complete ?r408, Cancel, Complete ?abort]"
             Subscription "JNum 0" "''poll''"]
       settles_at_most_once
         [of example_client "[Cancel, Complete ?r408, Complete ?abort]"
             Subscription "JNum 0" "''poll''"]
       a b d r n
  show ?thesis by simp
qed

text \<open>
  C3 as stated fails for \<^verbatim>\<open>subscriptionOnce\<close>: after \<^verbatim>\<open>cancel()\<close>, a 408 answer is
  caught, \<^verbatim>\<open>exec()\<close> returns at \<^verbatim>\<open>if (stopped)\<close>, and the promise is neither resolved
  nor rejected; no request is left that could still settle it (\<open>once_run_dead\<close>).
\<close>

theorem cancelled_reconnect_counterexample:
  "snd (once_run example_client
          [Cancel, Complete (JsonResolves (Response 200) (status_envelope ''reconnect'' 408))]
          (fst (subscriptionOnce example_client ''poll'' (JNum 0))))
     = [Abort,
        Reject \<lparr>ce_message = JStr ''reconnect'', ce_res = Some (Response 200),
                ce_json = status_envelope ''reconnect'' 408, ce_originalError = None,
                ce_shape = JObj [(''message'', JStr ''reconnect'')]\<rparr>]
   \<and> \<not> once_live (fst (once_run example_client
          [Cancel, Complete (JsonResolves (Response 200) (status_envelope ''reconnect'' 408))]
          (fst (subscriptionOnce example_client ''poll'' (JNum 0)))))"
  by (simp add: eval_defs once_live_def)

section \<open>Cancellation\<close>

lemma request_run_settled:
  "rq_settled r \<Longrightarrow> \<not> rq_pending r \<Longrightarrow> request_run c evs r = (r, [])"
proof (induction evs)
  case Nil
  show ?case by simp
next
  case (Cons ev evs)
  from Cons.prems have "request_step c ev r = (r, [])"
    by (cases ev) (simp_all add: cancel_def request_complete_cases)
  with Cons show ?case by simp
qed

lemma request_run_no_resolve:
  "\<forall>ev \<in> set evs. transport_fails ev \<Longrightarrow> filter is_resolve (snd (request_run c evs r)) = []"
proof (induction evs arbitrary: r)
  case Nil
  show ?case by simp
next
  case (Cons ev evs)
  from Cons.prems have f: "transport_fails ev" by simp
  have "filter is_resolve (snd (request_step c ev r)) = []"
  proof (cases ev)
    case Cancel
    with cancel_effects [of r] show ?thesis by simp
  next
    case (Complete outcome)
    with f catch_block_effects [of c] catch_block_not_ok [of c] show ?thesis
      by (cases outcome)
         (auto simp: request_complete_cases executeRequest_def split: sum.splits result.splits)
  qed
  with Cons.IH [of "fst (request_step c ev r)"] Cons.prems show ?case
    by (simp add: split_beta)
qed

lemma request_run_cancels:
  "\<not> rq_settled r \<Longrightarrow> rq_pending r \<Longrightarrow> rq_ac r = Some calls \<Longrightarrow>
   length (filter is_abort (snd (request_run c (replicate n Cancel) r))) = n
   \<and> \<not> rq_settled (fst (request_run c (replicate n Cancel) r))
   \<and> rq_pending (fst (request_run c (replicate n Cancel) r))
   \<and> rq_ac (fst (request_run c (replicate n Cancel) r)) = Some (calls + n)"
proof (induction n arbitrary: r calls)
  case 0
  then show ?case by simp
next
  case (Suc n)
  from Suc.prems
  have st: "cancel r = (r\<lparr>rq_aborted := True, rq_ac := Some (calls + 1)\<rparr>, [Abort])"
    by (simp add: cancel_def)
  from Suc.prems Suc.IH [of "r\<lparr>rq_aborted := True, rq_ac := Some (calls + 1)\<rparr>" "calls + 1"] st
  show ?case by (simp add: split_beta)
qed

lemma request_run_append:
  "request_run c (xs @ ys) r
     = (fst (request_run c ys (fst (request_run c xs r))),
        snd (request_run c xs r) @ snd (request_run c ys (fst (request_run c xs r))))"
  by (induction xs arbitrary: r) (simp_all add: split_beta)

text \<open>
  C4, as amended. For a request created with an abort capability: \<^verbatim>\<open>cancel()\<close> before
  settlement sets \<^verbatim>\<open>aborted\<close> and calls \<^verbatim>\<open>ac.abort()\<close>, once per call of \<^verbatim>\<open>cancel()\<close>:
  \<open>n\<close> calls before the transport answers call \<^verbatim>\<open>abort()\<close> \<open>n\<close> times, and none
  after the request has settled. So one \<^verbatim>\<open>cancel()\<close> raises the signal exactly once, and
  repeated ones do so only as far as the controller's own \<^verbatim>\<open>abort()\<close> ignores a second
  call. The promise is not resolved with data provided the transport fails the call, as
  a transport that honours the signal does. Once the request has settled, \<^verbatim>\<open>cancel()\<close>
  changes nothing. A second \<^verbatim>\<open>cancel()\<close> leaves the flags \<^verbatim>\<open>aborted\<close> and \<^verbatim>\<open>settled\<close> as
  the first left them.
\<close>

theorem cancel_contract:
  assumes "this_AC c"
  shows "cancel (fst (request c ty input path))
           = ((fst (request c ty input path))\<lparr>rq_aborted := True, rq_ac := Some 1\<rparr>, [Abort])
    \<and> (\<not> rq_settled r \<and> rq_ac r = Some calls \<longrightarrow>
          cancel r = (r\<lparr>rq_aborted := True, rq_ac := Some (calls + 1)\<rparr>, [Abort]))
    \<and> (returns c outcome \<longrightarrow>
          length (filter is_abort
            (snd (request_run c (replicate n Cancel @ Complete outcome # evs)
                    (fst (request c ty input path))))) = n)
    \<and> ((\<forall>ev \<in> set evs. transport_fails ev) \<longrightarrow>
          filter is_resolve (snd (request_run c (Cancel # evs) (fst (request c ty input path)))) = [])
    \<and> (rq_settled r \<longrightarrow> cancel r = (r, []))
    \<and> rq_aborted (fst (cancel (fst (cancel r)))) = rq_aborted (fst (cancel r))
    \<and> rq_settled (fst (cancel (fst (cancel r)))) = rq_settled (fst (cancel r))
    \<and> rq_pending (fst (cancel (fst (cancel r)))) = rq_pending (fst (cancel r))"
proof -
  let ?r0 = "fst (request c ty input path)"
  have r0: "\<not> rq_settled ?r0" "rq_pending ?r0" "rq_ac ?r0 = Some 0"
    using assms by (simp_all add: request_def Let_def)
  have first: "cancel ?r0 = (?r0\<lparr>rq_aborted := True, rq_ac := Some 1\<rparr>, [Abort])"
    using r0 by (simp add: cancel_def)
  have each: "\<not> rq_settled r \<and> rq_ac r = Some calls \<longrightarrow>
          cancel r = (r\<lparr>rq_aborted := True, rq_ac := Some (calls + 1)\<rparr>, [Abort])"
    by (simp add: cancel_def)
  have count: "length (filter is_abort
            (snd (request_run c (replicate n Cancel @ Complete outcome # evs) ?r0))) = n"
    if ret: "returns c outcome"
  proof -
    let ?r1 = "fst (request_run c (replicate n Cancel) ?r0)"
    from request_run_cancels [OF r0, of c n]
    have n: "length (filter is_abort (snd (request_run c (replicate n Cancel) ?r0))) = n"
      and p: "rq_pending ?r1" by simp_all
    from request_complete_settles [OF ret p]
    have a: "filter is_abort (snd (request_step c (Complete outcome) ?r1)) = []"
      and b: "\<not> rq_pending (fst (request_step c (Complete outcome) ?r1))"
      and s: "rq_settled (fst (request_step c (Complete outcome) ?r1))" by auto
    from request_run_settled [OF s b, of c evs] a
    have "filter is_abort (snd (request_run c (Complete outcome # evs) ?r1)) = []"
      by (simp add: split_beta)
    with n show ?thesis by (simp add: request_run_append)
  qed
  have noresolve: "(\<forall>ev \<in> set evs. transport_fails ev) \<longrightarrow>
      filter is_resolve (snd (request_run c (Cancel # evs) ?r0)) = []"
    using request_run_no_resolve [of "Cancel # evs" c ?r0] by simp
  have noop: "rq_settled r \<longrightarrow> cancel r = (r, [])" by (simp add: cancel_def)
  have flags: "rq_aborted (fst (cancel (fst (cancel r)))) = rq_aborted (fst (cancel r))
    \<and> rq_settled (fst (cancel (fst (cancel r)))) = rq_settled (fst (cancel r))
    \<and> rq_pending (fst (cancel (fst (cancel r)))) = rq_pending (fst (cancel r))"
    by (simp add: cancel_def split: option.splits)
  from first each count noresolve noop flags show ?thesis by blast
qed

theorem cancel_contract_witness:
  "this_AC example_client
   \<and> returns example_client (JsonResolves (Response 200) (success_envelope (JNum 7)))
   \<and> transport_fails (Complete (FetchRejects (Thrown (JsError ''AbortError'' ''The operation was aborted''))))
   \<and> length (filter is_abort (snd (request_run example_client
        [Cancel, Complete (JsonResolves (Response 200) (success_envelope (JNum 7))), Cancel, Cancel]
        (fst (request example_client Query (JObj [(''id'', JNum 1)]) ''getUser''))))) = 1
   \<and> length (filter is_abort (snd (request_run example_client
        [Complete (JsonResolves (Response 200) (success_envelope (JNum 7))), Cancel, Cancel]
        (fst (request example_client Query (JObj [(''id'', JNum 1)]) ''getUser''))))) = 0
   \<and> filter is_resolve (snd (request_run example_client
        [Cancel, Complete (FetchRejects (Thrown (JsError ''AbortError'' ''The operation was aborted'')))]
        (fst (request example_client Query (JObj [(''id'', JNum 1)]) ''getUser'')))) = []
   \<and> rq_settled (fst (request_run example_client
        [Complete (JsonResolves (Response 200) (success_envelope (JNum 7)))]
        (fst (request example_client Query (JObj [(''id'', JNum 1)]) ''getUser''))))
   \<and> cancel (fst (request_run example_client
        [Complete (JsonResolves (Response 200) (success_envelope (JNum 7)))]
        (fst (request example_client Query (JObj [(''id'', JNum 1)]) ''getUser''))))
       = (fst (request_run example_client
        [Complete (JsonResolves (Response 200) (success_envelope (JNum 7)))]
        (fst (request example_client Query (JObj [(''id'', JNum 1)]) ''getUser''))), [])"
proof -
  let ?ok = "JsonResolves (Response 200) (success_envelope (JNum 7))"
  let ?abort = "FetchRejects (Thrown (JsError ''AbortError'' ''The operation was aborted''))"
  let ?r0 = "fst (request example_client Query (JObj [(''id'', JNum 1)]) ''getUser'')"
  have ac: "this_AC example_client" by (simp add: example_client_def)
  have ret: "returns example_client ?ok" by (simp add: returns_def eval_defs)
  have tf: "\<forall>ev \<in> set [Complete ?abort]. transport_fails ev" by simp
  have st: "rq_settled (fst (request_run example_client [Complete ?ok] ?r0))"
    by (simp add: eval_defs)
  have l1: "replicate 1 Cancel @ Complete ?ok # [Cancel, Cancel]
              = [Cancel, Complete ?ok, Cancel, Cancel]"
    and l0: "replicate 0 Cancel @ Complete ?ok # [Cancel, Cancel] = [Complete ?ok, Cancel, Cancel]"
    by simp_all
  note t1 = cancel_contract
         [OF ac, of Query "JObj [(''id'', JNum 1)]" "''getUser''"
            "fst (request_run example_client [Complete ?ok] ?r0)" _ ?ok 1 "[Cancel, Cancel]"]
  note t0 = cancel_contract
         [OF ac, of Query "JObj [(''id'', JNum 1)]" "''getUser''"
            "fst (request_run example_client [Complete ?ok] ?r0)" _ ?ok 0 "[Cancel, Cancel]"]
  note t2 = cancel_contract
         [OF ac, of Query "JObj [(''id'', JNum 1)]" "''getUser''"
            "fst (request_run example_client [Complete ?ok] ?r0)" _ ?ok 0 "[Complete ?abort]"]
  from t1 ret
  have "length (filter is_abort (snd (request_run example_client
          (replicate 1 Cancel @ Complete ?ok # [Cancel, Cancel]) ?r0))) = 1" by blast
  then have f1: "length (filter is_abort (snd (request_run example_client
          [Cancel, Complete ?ok, Cancel, Cancel] ?r0))) = 1" unfolding l1 .
  from t0 ret
  have "length (filter is_abort (snd (request_run example_client
          (replicate 0 Cancel @ Complete ?ok # [Cancel, Cancel]) ?r0))) = 0" by blast
  then have f0: "length (filter is_abort (snd (request_run example_client
          [Complete ?ok, Cancel, Cancel] ?r0))) = 0" unfolding l0 .
  from t2 tf
  have f2: "filter is_resolve (snd (request_run example_client (Cancel # [Complete ?abort]) ?r0)) = []"
    by blast
  from t2 st
  have f3: "cancel (fst (request_run example_client [Complete ?ok] ?r0))
              = (fst (request_run example_client [Complete ?ok] ?r0), [])" by blast
  have tf1: "transport_fails (Complete ?abort)" by simp
  from ac ret tf1 f1 f0 f2 st f3 show ?thesis by blast
qed

text \<open>
  C4 as stated fails: two calls of \<^verbatim>\<open>cancel()\<close> before settlement call \<^verbatim>\<open>ac.abort()\<close>
  twice, and the code leaves the rest to the transport: when it still delivers a success
  envelope (a \<^verbatim>\<open>fetch\<close> that ignores the signal), the promise is resolved with the data.
\<close>

theorem cancel_then_success_counterexample:
  "snd (request_run example_client
         [Cancel, Cancel, Complete (JsonResolves (Response 200)
                    (success_envelope (JObj [(''id'', JNum 1), (''name'', JStr ''A'')])))]
         (fst (request example_client Query (JObj [(''id'', JNum 1)]) ''getUser'')))
     = [Abort, Abort,
        OnSuccessHook (success_envelope (JObj [(''id'', JNum 1), (''name'', JStr ''A'')])),
        Resolve (JObj [(''id'', JNum 1), (''name'', JStr ''A'')])]"
  by (simp add: eval_defs)

section \<open>Reconnecting in subscriptionOnce\<close>

text \<open>
  C1, as amended. The transport answers the current request of a \<^verbatim>\<open>subscriptionOnce\<close>
  call with a well-formed failure envelope. If the envelope's own \<^verbatim>\<open>statusCode\<close> is 408
  and \<^verbatim>\<open>cancel()\<close> has not been called, the call issues exactly one more request, with
  the same path and input, at once: no timer, no hook, and the promise is neither resolved
  nor rejected. If \<^verbatim>\<open>cancel()\<close> has been called, nothing is issued. If the envelope's
  \<^verbatim>\<open>statusCode\<close> is anything else, or absent, the promise is rejected with the error; so
  is it for every other rejection of the request whose \<^verbatim>\<open>json?.statusCode\<close> is not 408.
\<close>

theorem subscriptionOnce_reconnect:
  assumes "so_currentRequest s = Some r" and "rq_pending r"
    and "deserialize (this_transformer c) rawJson = Inr env"
    and "get_prop env ''ok'' = Inr ok" and "\<not> truthy ok"
    and "get_prop (opt_prop env ''error'') ''message'' = Inr message"
  shows "(opt_prop env ''statusCode'' = JNum 408 \<and> \<not> so_stopped s \<longrightarrow>
            once_complete c (JsonResolves res rawJson) s
              = (s\<lparr>so_currentRequest := Some (fst (request c Subscription (so_input s) (so_path s)))\<rparr>,
                 [Reject (TRPCClientError message (Some res) env None),
                  Fetch (opts_url c @ ''/'' @ so_path s)
                        (reqOpts c Subscription (so_input s) (so_path s))],
                 None))
    \<and> (opt_prop env ''statusCode'' = JNum 408 \<and> so_stopped s \<longrightarrow>
            once_complete c (JsonResolves res rawJson) s
              = (s\<lparr>so_currentRequest := Some (r\<lparr>rq_settled := True, rq_pending := False\<rparr>)\<rparr>,
                 [Reject (TRPCClientError message (Some res) env None)], None))
    \<and> (opt_prop env ''statusCode'' \<noteq> JNum 408 \<longrightarrow>
            once_complete c (JsonResolves res rawJson) s
              = (s\<lparr>so_currentRequest := Some (r\<lparr>rq_settled := True, rq_pending := False\<rparr>)\<rparr>,
                 [Reject (TRPCClientError message (Some res) env None),
                  OnceReject (TRPCClientError message (Some res) env None)],
                 Some (Rejected (TRPCClientError message (Some res) env None))))
    \<and> (request_complete c outcome r = (r', effs, Some (Rejected err))
          \<and> opt_prop (ce_json err) ''statusCode'' \<noteq> JNum 408 \<longrightarrow>
            once_complete c outcome s
              = (s\<lparr>so_currentRequest := Some r'\<rparr>, effs @ [OnceReject err], Some (Rejected err)))"
proof -
  have ex: "executeRequest c (JsonResolves res rawJson)
              = ([], Inr (Failure (TRPCClientError message (Some res) env None)))"
    using assms(3-6) by (simp add: executeRequest_def)
  have rc: "request_complete c (JsonResolves res rawJson) r
              = (r\<lparr>rq_settled := True, rq_pending := False\<rparr>,
                 [Reject (TRPCClientError message (Some res) env None)],
                 Some (Rejected (TRPCClientError message (Some res) env None)))"
    using assms(2) ex by (simp add: request_complete_def)
  have js: "ce_json (TRPCClientError message (Some res) env None) = env"
    by (simp add: TRPCClientError_def)
  have a: "opt_prop env ''statusCode'' = JNum 408 \<and> \<not> so_stopped s \<longrightarrow>
            once_complete c (JsonResolves res rawJson) s
              = (s\<lparr>so_currentRequest := Some (fst (request c Subscription (so_input s) (so_path s)))\<rparr>,
                 [Reject (TRPCClientError message (Some res) env None),
                  Fetch (opts_url c @ ''/'' @ so_path s)
                        (reqOpts c Subscription (so_input s) (so_path s))],
                 None)"
    using assms(1) rc js
    by (simp add: once_complete_def once_exec_def request_def reqOptsMap_def Let_def)
  have b: "opt_prop env ''statusCode'' = JNum 408 \<and> so_stopped s \<longrightarrow>
            once_complete c (JsonResolves res rawJson) s
              = (s\<lparr>so_currentRequest := Some (r\<lparr>rq_settled := True, rq_pending := False\<rparr>)\<rparr>,
                 [Reject (TRPCClientError message (Some res) env None)], None)"
    using assms(1) rc js by (simp add: once_complete_def once_exec_def)
  have d: "opt_prop env ''statusCode'' \<noteq> JNum 408 \<longrightarrow>
            once_complete c (JsonResolves res rawJson) s
              = (s\<lparr>so_currentRequest := Some (r\<lparr>rq_settled := True, rq_pending := False\<rparr>)\<rparr>,
                 [Reject (TRPCClientError message (Some res) env None),
                  OnceReject (TRPCClientError message (Some res) env None)],
                 Some (Rejected (TRPCClientError message (Some res) env None)))"
    using assms(1) rc js by (simp add: once_complete_def)
  have e: "request_complete c outcome r = (r', effs, Some (Rejected err))
          \<and> opt_prop (ce_json err) ''statusCode'' \<noteq> JNum 408 \<longrightarrow>
            once_complete c outcome s
              = (s\<lparr>so_currentRequest := Some r'\<rparr>, effs @ [OnceReject err], Some (Rejected err))"
    using assms(1) by (simp add: once_complete_def)
  from a b d e show ?thesis by blast
qed

theorem subscriptionOnce_reconnect_witness:
  "so_currentRequest (fst (subscriptionOnce example_client ''poll'' (JNum 0)))
     = Some (fst (request example_client Subscription (JNum 0) ''poll''))
   \<and> rq_pending (fst (request example_client Subscription (JNum 0) ''poll''))
   \<and> deserialize (this_transformer example_client) (status_envelope ''reconnect'' 408)
       = Inr (status_envelope ''reconnect'' 408)
   \<and> get_prop (status_envelope ''reconnect'' 408) ''ok'' = Inr (JBool False)
   \<and> \<not> truthy (JBool False)
   \<and> get_prop (opt_prop (status_envelope ''reconnect'' 408) ''error'') ''message''
       = Inr (JStr ''reconnect'')
   \<and> opt_prop (status_envelope ''reconnect'' 408) ''statusCode'' = JNum 408
   \<and> \<not> so_stopped (fst (subscriptionOnce example_client ''poll'' (JNum 0)))
   \<and> snd (once_complete example_client
            (JsonResolves (Response 200) (status_envelope ''reconnect'' 408))
            (fst (subscriptionOnce example_client ''poll'' (JNum 0))))
       = ([Reject \<lparr>ce_message = JStr ''reconnect'', ce_res = Some (Response 200),
                    ce_json = status_envelope ''reconnect'' 408, ce_originalError = None,
                    ce_shape = JObj [(''message'', JStr ''reconnect'')]\<rparr>,
           Fetch ''http://localhost/trpc/poll''
             \<lparr>ri_method = ''PATCH'', ri_body = Some (stringify (JObj [(''input'', JNum 0)])),
              ri_signal = True, ri_headers = [(''content-type'', ''application/json'')]\<rparr>],
          None)"
proof -
  let ?s = "fst (subscriptionOnce example_client ''poll'' (JNum 0))"
  let ?r = "fst (request example_client Subscription (JNum 0) ''poll'')"
  let ?env = "status_envelope ''reconnect'' 408"
  have 1: "so_currentRequest ?s = Some ?r"
    by (simp add: subscriptionOnce_def once_exec_def split_beta)
  have 2: "rq_pending ?r" by (simp add: request_def Let_def)
  have 3: "deserialize (this_transformer example_client) ?env = Inr ?env"
    by (simp add: example_client_def default_transformer_def)
  have 4: "get_prop ?env ''ok'' = Inr (JBool False)" by (simp add: status_envelope_def)
  have 5: "\<not> truthy (JBool False)" by simp
  have 6: "get_prop (opt_prop ?env ''error'') ''message'' = Inr (JStr ''reconnect'')"
    by (simp add: status_envelope_def opt_prop_def)
  have 7: "opt_prop ?env ''statusCode'' = JNum 408" by (simp add: status_envelope_def opt_prop_def)
  have 8: "\<not> so_stopped ?s" by (simp add: subscriptionOnce_def once_exec_def split_beta)
  have 9: "so_input ?s = JNum 0 \<and> so_path ?s = ''poll''"
    by (simp add: subscriptionOnce_def once_exec_def split_beta)
  from subscriptionOnce_reconnect [OF 1 2 3 4 5 6, of "Response 200"] 7 8
  have "once_complete example_client (JsonResolves (Response 200) ?env) ?s
          = (?s\<lparr>so_currentRequest := Some (fst (request example_client Subscription (so_input ?s) (so_path ?s)))\<rparr>,
             [Reject (TRPCClientError (JStr ''reconnect'') (Some (Response 200)) ?env None),
              Fetch (opts_url example_client @ ''/'' @ so_path ?s)
                    (reqOpts example_client Subscription (so_input ?s) (so_path ?s))],
             None)" by blast
  then have "snd (once_complete example_client (JsonResolves (Response 200) ?env) ?s)
          = ([Reject (TRPCClientError (JStr ''reconnect'') (Some (Response 200)) ?env None),
              Fetch (opts_url example_client @ ''/'' @ ''poll'')
                    (reqOpts example_client Subscription (JNum 0) ''poll'')],
             None)" using 9 by simp
  moreover have "TRPCClientError (JStr ''reconnect'') (Some (Response 200)) ?env None
      = \<lparr>ce_message = JStr ''reconnect'', ce_res = Some (Response 200),
                    ce_json = ?env, ce_originalError = None,
                    ce_shape = JObj [(''message'', JStr ''reconnect'')]\<rparr>"
    by (simp add: TRPCClientError_def opt_prop_def status_envelope_def)
  moreover have "reqOpts example_client Subscription (JNum 0) ''poll''
      = \<lparr>ri_method = ''PATCH'', ri_body = Some (stringify (JObj [(''input'', JNum 0)])),
              ri_signal = True, ri_headers = [(''content-type'', ''application/json'')]\<rparr>"
    by (simp add: reqOpts_def reqOptsMap_def getHeaders_def spread_def serializeInput_def
          example_client_def default_transformer_def Let_def)
  moreover have "opts_url example_client = ''http://localhost/trpc''"
    by (simp add: example_client_def)
  ultimately show ?thesis using 1 2 3 4 5 6 7 8 by simp
qed

text \<open>
  C1 as stated fails: the Failure Envelope of the data model carries its status code
  inside the error object, \<^verbatim>\<open>{ok: false, error: {message, statusCode: 408}}\<close>, where
  \<^verbatim>\<open>err.json?.statusCode\<close> does not look. No request is issued and the 408 error is
  surfaced to the caller.
\<close>

theorem error_statusCode_counterexample:
  "snd (once_complete example_client
          (JsonResolves (Response 200) (failure_envelope ''reconnect'' 408))
          (fst (subscriptionOnce example_client ''poll'' (JNum 0))))
     = ([Reject \<lparr>ce_message = JStr ''reconnect'', ce_res = Some (Response 200),
                  ce_json = failure_envelope ''reconnect'' 408, ce_originalError = None,
                  ce_shape = JObj [(''message'', JStr ''reconnect''), (''statusCode'', JNum 408)]\<rparr>,
         OnceReject \<lparr>ce_message = JStr ''reconnect'', ce_res = Some (Response 200),
                  ce_json = failure_envelope ''reconnect'' 408, ce_originalError = None,
                  ce_shape = JObj [(''message'', JStr ''reconnect''), (''statusCode'', JNum 408)]\<rparr>],
        Some (Rejected \<lparr>ce_message = JStr ''reconnect'', ce_res = Some (Response 200),
                  ce_json = failure_envelope ''reconnect'' 408, ce_originalError = None,
                  ce_shape = JObj [(''message'', JStr ''reconnect''), (''statusCode'', JNum 408)]\<rparr>))"
  by (simp add: eval_defs)

section \<open>The subscription loop\<close>

text \<open>
  C2 at its failing input. The first cycle fails with a 500 envelope, \<^verbatim>\<open>onError\<close> is
  called and a retry is scheduled after 2000 ms. The caller then calls \<^verbatim>\<open>unsubscribe()\<close>:
  \<^verbatim>\<open>stopped\<close> is set, the timer stays. The timer fires, \<^verbatim>\<open>exec(input)\<close> does not look at
  \<^verbatim>\<open>stopped\<close> and issues a new request; the transport answers it with data, and
  \<^verbatim>\<open>onData\<close> is called and the next request issued, all after \<^verbatim>\<open>unsubscribe()\<close>.
\<close>

theorem unsubscribe_then_retry_delivers:
  "sb_stopped (fst (sub_run example_client ''poll'' example_opts
      [Settle (JsonResolves (Response 500) (failure_envelope ''boom'' 500)), Unsubscribe]
      (fst (subscription example_client ''poll'' example_opts))))
   \<and> sb_control (fst (sub_run example_client ''poll'' example_opts
      [Settle (JsonResolves (Response 500) (failure_envelope ''boom'' 500)), Unsubscribe]
      (fst (subscription example_client ''poll'' example_opts)))) = Scheduled 2000 (JNum 0)
   \<and> snd (sub_run example_client ''poll'' example_opts
      [Timeout, Settle (JsonResolves (Response 200) (success_envelope (JArr [JNum 1])))]
      (fst (sub_run example_client ''poll'' example_opts
         [Settle (JsonResolves (Response 500) (failure_envelope ''boom'' 500)), Unsubscribe]
         (fst (subscription example_client ''poll'' example_opts)))))
     = [Fetch ''http://localhost/trpc/poll''
          \<lparr>ri_method = ''PATCH'', ri_body = Some (stringify (JObj [(''input'', JNum 0)])),
           ri_signal = True, ri_headers = [(''content-type'', ''application/json'')]\<rparr>,
        OnSuccessHook (success_envelope (JArr [JNum 1])),
        Resolve (JArr [JNum 1]),
        OnceResolve (JArr [JNum 1]),
        OnData (JArr [JNum 1]),
        Fetch ''http://localhost/trpc/poll''
          \<lparr>ri_method = ''PATCH'', ri_body = Some (stringify (JObj [(''input'', JNum 1)])),
           ri_signal = True, ri_headers = [(''content-type'', ''application/json'')]\<rparr>]"
  by (simp add: eval_defs sub_defs)

lemma subscriptionOnce_effects:
  "snd (subscriptionOnce c path input)
     = [Fetch (opts_url c @ ''/'' @ path) (reqOpts c Subscription input path)]"
  by (simp add: subscriptionOnce_def once_exec_def request_def reqOptsMap_def Let_def)

text \<open>
  C9, as amended. \<^verbatim>\<open>retryDelay(0)\<close> is 0 and \<^verbatim>\<open>retryDelay(n)\<close> is
  \<^verbatim>\<open>min(1000 * 2^n, 30000)\<close> otherwise. When the awaited \<^verbatim>\<open>subscriptionOnce\<close> promise is
  rejected and the loop is not stopped: if \<^verbatim>\<open>opts.onError\<close> is absent or returns,
  \<^verbatim>\<open>attemptIndex\<close> grows by exactly one, a timer is set for \<^verbatim>\<open>retryDelay\<close> of the new
  \<^verbatim>\<open>attemptIndex\<close>, and when it fires the same input is requested again; if
  \<^verbatim>\<open>opts.onError\<close> throws, \<^verbatim>\<open>attemptIndex\<close> stays and nothing is scheduled. When the
  promise is resolved, \<^verbatim>\<open>attemptIndex\<close> is reset before anything else: what follows
  does not depend on its old value; and when the callbacks return, \<^verbatim>\<open>attemptIndex\<close> is
  0 and the next input is requested at once.
\<close>

theorem retry_backoff:
  assumes "sb_control s = Awaiting i input" and "i < length (sb_heap s)"
  shows "retryDelay 0 = 0
    \<and> (n \<noteq> 0 \<longrightarrow> retryDelay n = min (1000 * 2 ^ n) 30000)
    \<and> (once_complete c outcome (sb_heap s ! i) = (p, effs, Some (Rejected err))
         \<and> \<not> sb_stopped s
         \<and> (case onError opts of None \<Rightarrow> None | Some callback \<Rightarrow> callback (ThrownClient err)) = None
         \<longrightarrow>
          sub_settle c path opts outcome s
            = (s\<lparr>sb_attemptIndex := sb_attemptIndex s + 1,
                 sb_heap := (sb_heap s)[i := p],
                 sb_control := Scheduled (retryDelay (sb_attemptIndex s + 1)) input\<rparr>,
               effs @ (case onError opts of None \<Rightarrow> []
                       | Some callback \<Rightarrow> [OnError (ThrownClient err)])
                    @ [SetTimeout (retryDelay (sb_attemptIndex s + 1)) input])
          \<and> sb_control (fst (sub_timeout c path (fst (sub_settle c path opts outcome s))))
              = Awaiting (length (sb_heap s)) input
          \<and> snd (sub_timeout c path (fst (sub_settle c path opts outcome s)))
              = [Fetch (opts_url c @ ''/'' @ path) (reqOpts c Subscription input path)])
    \<and> (once_complete c outcome (sb_heap s ! i) = (p, effs, Some (Rejected err))
         \<and> \<not> sb_stopped s \<and> onError opts = Some report \<and> report (ThrownClient err) = Some t
         \<longrightarrow>
          sub_settle c path opts outcome s
            = (s\<lparr>sb_heap := (sb_heap s)[i := p], sb_control := Finished\<rparr>,
               effs @ [OnError (ThrownClient err)]))
    \<and> (once_complete c outcome (sb_heap s ! i) = (p, effs, Some (Resolved res))
         \<and> (case onData opts of None \<Rightarrow> None | Some callback \<Rightarrow> callback res) = None
         \<and> nextInput opts res = Inr next \<longrightarrow>
          sb_attemptIndex (fst (sub_settle c path opts outcome s)) = 0
          \<and> sb_control (fst (sub_settle c path opts outcome s))
              = Awaiting (length (sb_heap s)) next
          \<and> snd (sub_settle c path opts outcome s)
              = effs @ (case onData opts of None \<Rightarrow> [] | Some callback \<Rightarrow> [OnData res])
                     @ [Fetch (opts_url c @ ''/'' @ path) (reqOpts c Subscription next path)])
    \<and> (once_complete c outcome (sb_heap s ! i) = (p, effs, Some (Resolved res)) \<longrightarrow>
          sub_settle c path opts outcome (s\<lparr>sb_attemptIndex := k\<rparr>)
            = sub_settle c path opts outcome (s\<lparr>sb_attemptIndex := 0\<rparr>))"
proof -
  have d: "n \<noteq> 0 \<longrightarrow> retryDelay n = min (1000 * 2 ^ n) 30000" "retryDelay 0 = 0"
    by (simp_all add: retryDelay_def)
  have fail: "sub_settle c path opts outcome s
            = (s\<lparr>sb_attemptIndex := sb_attemptIndex s + 1,
                 sb_heap := (sb_heap s)[i := p],
                 sb_control := Scheduled (retryDelay (sb_attemptIndex s + 1)) input\<rparr>,
               effs @ (case onError opts of None \<Rightarrow> []
                       | Some callback \<Rightarrow> [OnError (ThrownClient err)])
                    @ [SetTimeout (retryDelay (sb_attemptIndex s + 1)) input])"
    if "once_complete c outcome (sb_heap s ! i) = (p, effs, Some (Rejected err))"
      and "\<not> sb_stopped s"
      and "(case onError opts of None \<Rightarrow> None | Some callback \<Rightarrow> callback (ThrownClient err)) = None"
    using that assms
    by (auto simp: sub_settle_def sub_catch_def split: option.splits)
  have retry: "sb_control (fst (sub_timeout c path (fst (sub_settle c path opts outcome s))))
              = Awaiting (length (sb_heap s)) input
          \<and> snd (sub_timeout c path (fst (sub_settle c path opts outcome s)))
              = [Fetch (opts_url c @ ''/'' @ path) (reqOpts c Subscription input path)]"
    if "once_complete c outcome (sb_heap s ! i) = (p, effs, Some (Rejected err))"
      and "\<not> sb_stopped s"
      and "(case onError opts of None \<Rightarrow> None | Some callback \<Rightarrow> callback (ThrownClient err)) = None"
    using fail [OF that] subscriptionOnce_effects [of c path input]
    by (simp add: sub_timeout_def sub_exec_def split_beta Let_def)
  have dies: "sub_settle c path opts outcome s
            = (s\<lparr>sb_heap := (sb_heap s)[i := p], sb_control := Finished\<rparr>,
               effs @ [OnError (ThrownClient err)])"
    if "once_complete c outcome (sb_heap s ! i) = (p, effs, Some (Rejected err))"
      and "\<not> sb_stopped s" and "onError opts = Some report"
      and "report (ThrownClient err) = Some t"
    using that assms by (simp add: sub_settle_def sub_catch_def)
  have ok: "sb_attemptIndex (fst (sub_settle c path opts outcome s)) = 0
          \<and> sb_control (fst (sub_settle c path opts outcome s))
              = Awaiting (length (sb_heap s)) next
          \<and> snd (sub_settle c path opts outcome s)
              = effs @ (case onData opts of None \<Rightarrow> [] | Some callback \<Rightarrow> [OnData res])
                     @ [Fetch (opts_url c @ ''/'' @ path) (reqOpts c Subscription next path)]"
    if "once_complete c outcome (sb_heap s ! i) = (p, effs, Some (Resolved res))"
      and "(case onData opts of None \<Rightarrow> None | Some callback \<Rightarrow> callback res) = None"
      and "nextInput opts res = Inr next"
    using that assms subscriptionOnce_effects [of c path "next"]
    by (simp add: sub_settle_def sub_resume_def sub_exec_def split_beta Let_def)
  have forget: "sub_settle c path opts outcome (s\<lparr>sb_attemptIndex := k\<rparr>)
            = sub_settle c path opts outcome (s\<lparr>sb_attemptIndex := 0\<rparr>)"
    if "once_complete c outcome (sb_heap s ! i) = (p, effs, Some (Resolved res))"
    using that assms by (simp add: sub_settle_def sub_resume_def Let_def)
  from d fail retry dies ok forget show ?thesis by blast
qed

theorem retry_backoff_witness:
  "sb_control (fst (subscription example_client ''poll'' example_opts)) = Awaiting 0 (JNum 0)
   \<and> 0 < length (sb_heap (fst (subscription example_client ''poll'' example_opts)))
   \<and> \<not> sb_stopped (fst (subscription example_client ''poll'' example_opts))
   \<and> (3::nat) \<noteq> 0 \<and> retryDelay 3 = 8000 \<and> retryDelay 5 = 30000
   \<and> sb_attemptIndex (fst (sub_settle example_client ''poll'' example_opts
        (JsonResolves (Response 500) (failure_envelope ''boom'' 500))
        (fst (subscription example_client ''poll'' example_opts)))) = 1
   \<and> sb_control (fst (sub_settle example_client ''poll'' example_opts
        (JsonResolves (Response 500) (failure_envelope ''boom'' 500))
        (fst (subscription example_client ''poll'' example_opts)))) = Scheduled 2000 (JNum 0)
   \<and> sb_control (fst (subscription example_client ''poll'' failing_opts)) = Awaiting 0 (JNum 0)
   \<and> sb_control (fst (sub_settle example_client ''poll'' failing_opts
        (JsonResolves (Response 500) (failure_envelope ''boom'' 500))
        (fst (subscription example_client ''poll'' failing_opts)))) = Finished
   \<and> sb_attemptIndex (fst (sub_run example_client ''poll'' example_opts
        [Settle (JsonResolves (Response 500) (failure_envelope ''boom'' 500)), Timeout]
        (fst (subscription example_client ''poll'' example_opts)))) = 1
   \<and> nextInput example_opts (JArr [JNum 1, JNum 2, JNum 3]) = Inr (JNum 3)
   \<and> sb_attemptIndex (fst (sub_settle example_client ''poll'' example_opts
        (JsonResolves (Response 200) (success_envelope (JArr [JNum 1, JNum 2, JNum 3])))
        (fst (sub_run example_client ''poll'' example_opts
          [Settle (JsonResolves (Response 500) (failure_envelope ''boom'' 500)), Timeout]
          (fst (subscription example_client ''poll'' example_opts)))))) = 0
   \<and> sb_control (fst (sub_settle example_client ''poll'' example_opts
        (JsonResolves (Response 200) (success_envelope (JArr [JNum 1, JNum 2, JNum 3])))
        (fst (sub_run example_client ''poll'' example_opts
          [Settle (JsonResolves (Response 500) (failure_envelope ''boom'' 500)), Timeout]
          (fst (subscription example_client ''poll'' example_opts)))))) = Awaiting 2 (JNum 3)"
proof -
  let ?s0 = "fst (subscription example_client ''poll'' example_opts)"
  let ?f0 = "fst (subscription example_client ''poll'' failing_opts)"
  let ?fail = "JsonResolves (Response 500) (failure_envelope ''boom'' 500)"
  let ?ok = "JsonResolves (Response 200) (success_envelope (JArr [JNum 1, JNum 2, JNum 3]))"
  let ?s1 = "fst (sub_run example_client ''poll'' example_opts [Settle ?fail, Timeout] ?s0)"
  let ?err = "\<lparr>ce_message = JStr ''boom'', ce_res = Some (Response 500),
                ce_json = failure_envelope ''boom'' 500, ce_originalError = None,
                ce_shape = JObj [(''message'', JStr ''boom''), (''statusCode'', JNum 500)]\<rparr>"
  let ?t = "Thrown (JsError ''Error'' ''handler failed'')"
  have c0: "sb_control ?s0 = Awaiting 0 (JNum 0)" and l0: "0 < length (sb_heap ?s0)"
    and n0: "\<not> sb_stopped ?s0" and a0: "sb_attemptIndex ?s0 = 0"
    by (simp_all add: eval_defs sub_defs)
  have cf: "sb_control ?f0 = Awaiting 0 (JNum 0)" and lf: "0 < length (sb_heap ?f0)"
    and nf: "\<not> sb_stopped ?f0"
    by (simp_all add: eval_defs sub_defs)
  have h: "(case onError example_opts of None \<Rightarrow> None | Some callback \<Rightarrow> callback (ThrownClient ?err)) = None"
    by (simp add: example_opts_def)
  have hf: "onError failing_opts = Some (\<lambda>err. Some ?t)"
    by (simp add: failing_opts_def example_opts_def)
  have f: "once_complete example_client ?fail (sb_heap ?s0 ! 0)
             = (fst (once_complete example_client ?fail (sb_heap ?s0 ! 0)),
                fst (snd (once_complete example_client ?fail (sb_heap ?s0 ! 0))),
                Some (Rejected ?err))"
    by (simp add: eval_defs sub_defs)
  have ff: "once_complete example_client ?fail (sb_heap ?f0 ! 0)
             = (fst (once_complete example_client ?fail (sb_heap ?f0 ! 0)),
                fst (snd (once_complete example_client ?fail (sb_heap ?f0 ! 0))),
                Some (Rejected ?err))"
    by (simp add: eval_defs sub_defs)
  have c1: "sb_control ?s1 = Awaiting 1 (JNum 0)" and l1: "1 < length (sb_heap ?s1)"
    and a1: "sb_attemptIndex ?s1 = 1" and len1: "length (sb_heap ?s1) = 2"
    by (simp_all add: eval_defs sub_defs)
  have g: "once_complete example_client ?ok (sb_heap ?s1 ! 1)
             = (fst (once_complete example_client ?ok (sb_heap ?s1 ! 1)),
                fst (snd (once_complete example_client ?ok (sb_heap ?s1 ! 1))),
                Some (Resolved (JArr [JNum 1, JNum 2, JNum 3])))"
    by (simp add: eval_defs sub_defs)
  have d: "(case onData example_opts of None \<Rightarrow> None
            | Some callback \<Rightarrow> callback (JArr [JNum 1, JNum 2, JNum 3])) = None"
    and nx: "nextInput example_opts (JArr [JNum 1, JNum 2, JNum 3]) = Inr (JNum 3)"
    by (simp_all add: example_opts_def)
  from retry_backoff [OF c0 l0, where n = 3 and c = example_client and outcome = ?fail
         and err = ?err and opts = example_opts and path = "''poll''"] f n0 h a0
  have r1: "retryDelay 3 = min (1000 * 2 ^ 3) 30000"
    and r2: "sb_attemptIndex (fst (sub_settle example_client ''poll'' example_opts ?fail ?s0)) = 1"
    and r3: "sb_control (fst (sub_settle example_client ''poll'' example_opts ?fail ?s0))
               = Scheduled (retryDelay 1) (JNum 0)"
    by simp_all
  from retry_backoff [OF cf lf, where n = 3 and c = example_client and outcome = ?fail
         and err = ?err and opts = failing_opts and path = "''poll''"
         and report = "\<lambda>err. Some ?t" and t = ?t] ff nf hf
  have r7: "sb_control (fst (sub_settle example_client ''poll'' failing_opts ?fail ?f0)) = Finished"
    by simp
  from retry_backoff [OF c1 l1, where n = 5 and c = example_client and outcome = ?ok
         and opts = example_opts and path = "''poll''"
         and res = "JArr [JNum 1, JNum 2, JNum 3]" and ?next = "JNum 3"] g d nx len1
  have r4: "retryDelay 5 = min (1000 * 2 ^ 5) 30000"
    and r5: "sb_attemptIndex (fst (sub_settle example_client ''poll'' example_opts ?ok ?s1)) = 0"
    and r6: "sb_control (fst (sub_settle example_client ''poll'' example_opts ?ok ?s1))
               = Awaiting 2 (JNum 3)"
    by simp_all
  have "retryDelay 1 = 2000" by (simp add: retryDelay_def)
  with c0 l0 n0 cf r1 r2 r3 r4 r5 r6 r7 a1 nx show ?thesis by simp
qed

text \<open>
  C9 as stated fails: the first cycle fails with a 500 envelope, the loop is not stopped,
  and \<^verbatim>\<open>opts.onError\<close> throws. The exception leaves \<^verbatim>\<open>exec\<close> before
  \<^verbatim>\<open>attemptIndex++\<close> and \<^verbatim>\<open>setTimeout\<close>: \<^verbatim>\<open>attemptIndex\<close> is still 0 and no retry is
  scheduled.
\<close>

theorem throwing_onError_counterexample:
  "sub_run example_client ''poll'' failing_opts
     [Settle (JsonResolves (Response 500) (failure_envelope ''boom'' 500))]
     (fst (subscription example_client ''poll'' failing_opts))
   = ((fst (subscription example_client ''poll'' failing_opts))
        \<lparr>sb_heap := [(fst (subscriptionOnce example_client ''poll'' (JNum 0)))
                       \<lparr>so_currentRequest :=
                          Some ((fst (request example_client Subscription (JNum 0) ''poll''))
                                  \<lparr>rq_settled := True, rq_pending := False\<rparr>)\<rparr>],
         sb_control := Finished\<rparr>,
      [Reject \<lparr>ce_message = JStr ''boom'', ce_res = Some (Response 500),
               ce_json = failure_envelope ''boom'' 500, ce_originalError = None,
               ce_shape = JObj [(''message'', JStr ''boom''), (''statusCode'', JNum 500)]\<rparr>,
       OnceReject \<lparr>ce_message = JStr ''boom'', ce_res = Some (Response 500),
               ce_json = failure_envelope ''boom'' 500, ce_originalError = None,
               ce_shape = JObj [(''message'', JStr ''boom''), (''statusCode'', JNum 500)]\<rparr>,
       OnError (ThrownClient \<lparr>ce_message = JStr ''boom'', ce_res = Some (Response 500),
               ce_json = failure_envelope ''boom'' 500, ce_originalError = None,
               ce_shape = JObj [(''message'', JStr ''boom''), (''statusCode'', JNum 500)]\<rparr>)])
   \<and> sb_attemptIndex (fst (sub_run example_client ''poll'' failing_opts
        [Settle (JsonResolves (Response 500) (failure_envelope ''boom'' 500))]
        (fst (subscription example_client ''poll'' failing_opts)))) = 0
   \<and> \<not> sb_stopped (fst (subscription example_client ''poll'' failing_opts))"
  by (simp add: eval_defs sub_defs)

text \<open>
  C10, as amended. When the awaited promise is resolved and \<^verbatim>\<open>onData\<close> or
  \<^verbatim>\<open>nextInput\<close> throws, the thrown value goes to the \<^verbatim>\<open>catch\<close> clause of \<^verbatim>\<open>exec\<close> like
  a failed cycle. If the loop is not stopped and \<^verbatim>\<open>opts.onError\<close> is absent or returns:
  \<^verbatim>\<open>onError\<close> (if there is one) is called with the thrown value, \<^verbatim>\<open>attemptIndex\<close>, just
  reset to 0, becomes 1, and the same input is requested again after \<^verbatim>\<open>retryDelay(1)\<close>.
  If \<^verbatim>\<open>opts.onError\<close> throws, it has been called, and nothing is incremented or
  scheduled. If the loop is stopped, \<^verbatim>\<open>onError\<close> is not called and nothing is
  incremented or scheduled. And with a \<^verbatim>\<open>nextInput\<close> that throws, a server that answers
  the same input with the same data has it delivered to \<^verbatim>\<open>onData\<close> twice.
\<close>

theorem callback_throw_is_cycle_failure:
  assumes "sb_control s = Awaiting i input" and "i < length (sb_heap s)"
    and "once_complete c outcome (sb_heap s ! i) = (p, effs, Some (Resolved res))"
    and "(case onData opts of None \<Rightarrow> None | Some callback \<Rightarrow> callback res) = Some t
         \<or> ((case onData opts of None \<Rightarrow> None | Some callback \<Rightarrow> callback res) = None
              \<and> nextInput opts res = Inl t)"
  shows "(\<not> sb_stopped s
          \<and> (case onError opts of None \<Rightarrow> None | Some report \<Rightarrow> report t) = None \<longrightarrow>
          sub_settle c path opts outcome s
            = (s\<lparr>sb_heap := (sb_heap s)[i := p], sb_attemptIndex := 1,
                 sb_control := Scheduled (retryDelay 1) input\<rparr>,
               effs @ (case onData opts of None \<Rightarrow> [] | Some callback \<Rightarrow> [OnData res])
                    @ (case onError opts of None \<Rightarrow> [] | Some report \<Rightarrow> [OnError t])
                    @ [SetTimeout (retryDelay 1) input])
          \<and> sub_timeout c path (fst (sub_settle c path opts outcome s))
              = sub_exec c path input (fst (sub_settle c path opts outcome s)))
    \<and> (\<not> sb_stopped s \<and> onError opts = Some report \<and> report t = Some t' \<longrightarrow>
          sub_settle c path opts outcome s
            = (s\<lparr>sb_heap := (sb_heap s)[i := p], sb_attemptIndex := 0, sb_control := Finished\<rparr>,
               effs @ (case onData opts of None \<Rightarrow> [] | Some callback \<Rightarrow> [OnData res])
                    @ [OnError t]))
    \<and> (sb_stopped s \<longrightarrow>
          sub_settle c path opts outcome s
            = (s\<lparr>sb_heap := (sb_heap s)[i := p], sb_attemptIndex := 0, sb_control := Finished\<rparr>,
               effs @ (case onData opts of None \<Rightarrow> [] | Some callback \<Rightarrow> [OnData res])))
    \<and> filter is_callback (snd (sub_run example_client ''poll'' throwing_opts
         [Settle (JsonResolves (Response 200) (success_envelope (JArr [JNum 1]))), Timeout,
          Settle (JsonResolves (Response 200) (success_envelope (JArr [JNum 1])))]
         (fst (subscription example_client ''poll'' throwing_opts))))
       = [OnData (JArr [JNum 1]), OnError (Thrown (JsError ''Error'' ''no cursor'')),
          OnData (JArr [JNum 1]), OnError (Thrown (JsError ''Error'' ''no cursor''))]"
proof -
  have same: "sub_settle c path opts outcome s
           = (fst (sub_catch opts t input (s\<lparr>sb_heap := (sb_heap s)[i := p], sb_attemptIndex := 0\<rparr>)),
              effs @ (case onData opts of None \<Rightarrow> [] | Some callback \<Rightarrow> [OnData res])
                   @ snd (sub_catch opts t input
                            (s\<lparr>sb_heap := (sb_heap s)[i := p], sb_attemptIndex := 0\<rparr>)))"
    using assms
    by (auto simp: sub_settle_def sub_resume_def split_beta Let_def split: option.splits)
  have handled: "sub_settle c path opts outcome s
            = (s\<lparr>sb_heap := (sb_heap s)[i := p], sb_attemptIndex := 1,
                 sb_control := Scheduled (retryDelay 1) input\<rparr>,
               effs @ (case onData opts of None \<Rightarrow> [] | Some callback \<Rightarrow> [OnData res])
                    @ (case onError opts of None \<Rightarrow> [] | Some report \<Rightarrow> [OnError t])
                    @ [SetTimeout (retryDelay 1) input])"
    if "\<not> sb_stopped s"
      and "(case onError opts of None \<Rightarrow> None | Some report \<Rightarrow> report t) = None"
    using that same by (auto simp: sub_catch_def split: option.splits)
  have again: "sub_timeout c path (fst (sub_settle c path opts outcome s))
              = sub_exec c path input (fst (sub_settle c path opts outcome s))"
    if "\<not> sb_stopped s"
      and "(case onError opts of None \<Rightarrow> None | Some report \<Rightarrow> report t) = None"
    using handled [OF that] by (simp add: sub_timeout_def)
  have dies: "sub_settle c path opts outcome s
            = (s\<lparr>sb_heap := (sb_heap s)[i := p], sb_attemptIndex := 0, sb_control := Finished\<rparr>,
               effs @ (case onData opts of None \<Rightarrow> [] | Some callback \<Rightarrow> [OnData res])
                    @ [OnError t])"
    if "\<not> sb_stopped s" and "onError opts = Some report" and "report t = Some t'"
    using that same by (simp add: sub_catch_def)
  have silent: "sub_settle c path opts outcome s
            = (s\<lparr>sb_heap := (sb_heap s)[i := p], sb_attemptIndex := 0, sb_control := Finished\<rparr>,
               effs @ (case onData opts of None \<Rightarrow> [] | Some callback \<Rightarrow> [OnData res]))"
    if "sb_stopped s"
    using that same by (simp add: sub_catch_def)
  have twice: "filter is_callback (snd (sub_run example_client ''poll'' throwing_opts
         [Settle (JsonResolves (Response 200) (success_envelope (JArr [JNum 1]))), Timeout,
          Settle (JsonResolves (Response 200) (success_envelope (JArr [JNum 1])))]
         (fst (subscription example_client ''poll'' throwing_opts))))
       = [OnData (JArr [JNum 1]), OnError (Thrown (JsError ''Error'' ''no cursor'')),
          OnData (JArr [JNum 1]), OnError (Thrown (JsError ''Error'' ''no cursor''))]"
    by (simp add: eval_defs sub_defs)
  from handled again dies silent twice show ?thesis by blast
qed

theorem callback_throw_is_cycle_failure_witness:
  "sb_control (fst (subscription example_client ''poll'' throwing_opts)) = Awaiting 0 (JNum 0)
   \<and> 0 < length (sb_heap (fst (subscription example_client ''poll'' throwing_opts)))
   \<and> snd (snd (once_complete example_client
        (JsonResolves (Response 200) (success_envelope (JArr [JNum 1])))
        (sb_heap (fst (subscription example_client ''poll'' throwing_opts)) ! 0)))
       = Some (Resolved (JArr [JNum 1]))
   \<and> (case onData throwing_opts of None \<Rightarrow> None | Some callback \<Rightarrow> callback (JArr [JNum 1])) = None
   \<and> nextInput throwing_opts (JArr [JNum 1]) = Inl (Thrown (JsError ''Error'' ''no cursor''))
   \<and> \<not> sb_stopped (fst (subscription example_client ''poll'' throwing_opts))
   \<and> (case onError throwing_opts of None \<Rightarrow> None
       | Some report \<Rightarrow> report (Thrown (JsError ''Error'' ''no cursor''))) = None
   \<and> sb_attemptIndex (fst (sub_settle example_client ''poll'' throwing_opts
        (JsonResolves (Response 200) (success_envelope (JArr [JNum 1])))
        (fst (subscription example_client ''poll'' throwing_opts)))) = 1
   \<and> sb_control (fst (sub_settle example_client ''poll'' throwing_opts
        (JsonResolves (Response 200) (success_envelope (JArr [JNum 1])))
        (fst (subscription example_client ''poll'' throwing_opts)))) = Scheduled 2000 (JNum 0)
   \<and> filter is_callback (snd (sub_settle example_client ''poll'' throwing_opts
        (JsonResolves (Response 200) (success_envelope (JArr [JNum 1])))
        (fst (subscription example_client ''poll'' throwing_opts))))
       = [OnData (JArr [JNum 1]), OnError (Thrown (JsError ''Error'' ''no cursor''))]
   \<and> onError throwing_failing_opts
       = Some (\<lambda>err. Some (Thrown (JsError ''Error'' ''handler failed'')))
   \<and> sb_control (fst (sub_settle example_client ''poll'' throwing_failing_opts
        (JsonResolves (Response 200) (success_envelope (JArr [JNum 1])))
        (fst (subscription example_client ''poll'' throwing_failing_opts)))) = Finished
   \<and> sb_stopped (fst (unsubscribe (fst (subscription example_client ''poll'' throwing_opts))))
   \<and> sb_control (fst (sub_settle example_client ''poll'' throwing_opts
        (JsonResolves (Response 200) (success_envelope (JArr [JNum 1])))
        (fst (unsubscribe (fst (subscription example_client ''poll'' throwing_opts)))))) = Finished"
proof -
  let ?s0 = "fst (subscription example_client ''poll'' throwing_opts)"
  let ?f0 = "fst (subscription example_client ''poll'' throwing_failing_opts)"
  let ?u0 = "fst (unsubscribe ?s0)"
  let ?ok = "JsonResolves (Response 200) (success_envelope (JArr [JNum 1]))"
  let ?t = "Thrown (JsError ''Error'' ''no cursor'')"
  let ?t' = "Thrown (JsError ''Error'' ''handler failed'')"
  have c0: "sb_control ?s0 = Awaiting 0 (JNum 0)" and l0: "0 < length (sb_heap ?s0)"
    and n0: "\<not> sb_stopped ?s0"
    by (simp_all add: eval_defs sub_defs)
  have cf: "sb_control ?f0 = Awaiting 0 (JNum 0)" and lf: "0 < length (sb_heap ?f0)"
    and nf: "\<not> sb_stopped ?f0"
    by (simp_all add: eval_defs sub_defs)
  have cu: "sb_control ?u0 = Awaiting 0 (JNum 0)" and lu: "0 < length (sb_heap ?u0)"
    and su: "sb_stopped ?u0"
    by (simp_all add: eval_defs sub_defs)
  have g: "once_complete example_client ?ok (sb_heap ?s0 ! 0)
             = (fst (once_complete example_client ?ok (sb_heap ?s0 ! 0)),
                fst (snd (once_complete example_client ?ok (sb_heap ?s0 ! 0))),
                Some (Resolved (JArr [JNum 1])))"
    by (simp add: eval_defs sub_defs)
  have gf: "once_complete example_client ?ok (sb_heap ?f0 ! 0)
             = (fst (once_complete example_client ?ok (sb_heap ?f0 ! 0)),
                fst (snd (once_complete example_client ?ok (sb_heap ?f0 ! 0))),
                Some (Resolved (JArr [JNum 1])))"
    by (simp add: eval_defs sub_defs)
  have gu: "once_complete example_client ?ok (sb_heap ?u0 ! 0)
             = (fst (once_complete example_client ?ok (sb_heap ?u0 ! 0)),
                fst (snd (once_complete example_client ?ok (sb_heap ?u0 ! 0))),
                Some (Resolved (JArr [JNum 1])))"
    by (simp add: eval_defs sub_defs)
  have g': "snd (snd (once_complete example_client ?ok (sb_heap ?s0 ! 0)))
              = Some (Resolved (JArr [JNum 1]))"
    using g by (metis snd_conv)
  have e: "fst (snd (once_complete example_client ?ok (sb_heap ?s0 ! 0)))
             = [OnSuccessHook (success_envelope (JArr [JNum 1])), Resolve (JArr [JNum 1]),
                OnceResolve (JArr [JNum 1])]"
    by (simp add: eval_defs sub_defs)
  have d: "(case onData throwing_opts of None \<Rightarrow> None | Some callback \<Rightarrow> callback (JArr [JNum 1])) = None"
    and nx: "nextInput throwing_opts (JArr [JNum 1]) = Inl ?t"
    and oe: "(case onError throwing_opts of None \<Rightarrow> None | Some report \<Rightarrow> report ?t) = None"
    and oc: "(case onError throwing_opts of None \<Rightarrow> [] | Some report \<Rightarrow> [OnError ?t]) = [OnError ?t]"
    and df: "(case onData throwing_failing_opts of None \<Rightarrow> None | Some callback \<Rightarrow> callback (JArr [JNum 1])) = None"
    and nxf: "nextInput throwing_failing_opts (JArr [JNum 1]) = Inl ?t"
    and of: "onError throwing_failing_opts = Some (\<lambda>err. Some ?t')"
    by (simp_all add: throwing_opts_def throwing_failing_opts_def example_opts_def)
  have thr: "(case onData throwing_opts of None \<Rightarrow> None | Some callback \<Rightarrow> callback (JArr [JNum 1])) = Some ?t
         \<or> ((case onData throwing_opts of None \<Rightarrow> None | Some callback \<Rightarrow> callback (JArr [JNum 1])) = None
              \<and> nextInput throwing_opts (JArr [JNum 1]) = Inl ?t)"
    using d nx by simp
  have thrf: "(case onData throwing_failing_opts of None \<Rightarrow> None | Some callback \<Rightarrow> callback (JArr [JNum 1])) = Some ?t
         \<or> ((case onData throwing_failing_opts of None \<Rightarrow> None | Some callback \<Rightarrow> callback (JArr [JNum 1])) = None
              \<and> nextInput throwing_failing_opts (JArr [JNum 1]) = Inl ?t)"
    using df nxf by simp
  from callback_throw_is_cycle_failure [OF c0 l0 g thr, where path = "''poll''"] n0 oe
  have r: "sub_settle example_client ''poll'' throwing_opts ?ok ?s0
            = (?s0\<lparr>sb_heap := (sb_heap ?s0)[0 := fst (once_complete example_client ?ok (sb_heap ?s0 ! 0))],
                   sb_attemptIndex := 1,
                   sb_control := Scheduled (retryDelay 1) (JNum 0)\<rparr>,
               fst (snd (once_complete example_client ?ok (sb_heap ?s0 ! 0)))
                 @ (case onData throwing_opts of None \<Rightarrow> [] | Some callback \<Rightarrow> [OnData (JArr [JNum 1])])
                 @ (case onError throwing_opts of None \<Rightarrow> [] | Some report \<Rightarrow> [OnError ?t])
                 @ [SetTimeout (retryDelay 1) (JNum 0)])"
    by blast
  from callback_throw_is_cycle_failure
         [OF cf lf gf thrf, where path = "''poll''" and report = "\<lambda>err. Some ?t'" and t' = ?t'] nf of
  have rf: "sb_control (fst (sub_settle example_client ''poll'' throwing_failing_opts ?ok ?f0)) = Finished"
    by simp
  from callback_throw_is_cycle_failure [OF cu lu gu thr, where path = "''poll''"] su
  have ru: "sb_control (fst (sub_settle example_client ''poll'' throwing_opts ?ok ?u0)) = Finished"
    by simp
  have rd: "retryDelay 1 = 2000" by (simp add: retryDelay_def)
  have cb: "(case onData throwing_opts of None \<Rightarrow> [] | Some callback \<Rightarrow> [OnData (JArr [JNum 1])])
              = [OnData (JArr [JNum 1])]"
    by (simp add: throwing_opts_def example_opts_def)
  from r rd e cb oc c0 l0 n0 g' d nx oe of rf su ru show ?thesis by simp
qed

text \<open>
  C10 as stated fails. With a \<^verbatim>\<open>nextInput\<close> and an \<^verbatim>\<open>onError\<close> that both throw, a
  successful cycle calls \<^verbatim>\<open>onData\<close> and \<^verbatim>\<open>onError\<close> and ends the loop: \<^verbatim>\<open>attemptIndex\<close>
  is not incremented and the input is not retried. And when \<^verbatim>\<open>unsubscribe()\<close> was called
  while the request was in flight and the transport still answers with data, the throw
  of \<^verbatim>\<open>nextInput\<close> ends the loop without any call of \<^verbatim>\<open>onError\<close>.
\<close>

theorem throwing_callbacks_counterexample:
  "sb_attemptIndex (fst (sub_run example_client ''poll'' throwing_failing_opts
      [Settle (JsonResolves (Response 200) (success_envelope (JArr [JNum 1])))]
      (fst (subscription example_client ''poll'' throwing_failing_opts)))) = 0
   \<and> sb_control (fst (sub_run example_client ''poll'' throwing_failing_opts
      [Settle (JsonResolves (Response 200) (success_envelope (JArr [JNum 1])))]
      (fst (subscription example_client ''poll'' throwing_failing_opts)))) = Finished
   \<and> snd (sub_run example_client ''poll'' throwing_failing_opts
      [Settle (JsonResolves (Response 200) (success_envelope (JArr [JNum 1])))]
      (fst (subscription example_client ''poll'' throwing_failing_opts)))
     = [OnSuccessHook (success_envelope (JArr [JNum 1])), Resolve (JArr [JNum 1]),
        OnceResolve (JArr [JNum 1]), OnData (JArr [JNum 1]),
        OnError (Thrown (JsError ''Error'' ''no cursor''))]
   \<and> sb_control (fst (sub_run example_client ''poll'' throwing_opts
      [Unsubscribe, Settle (JsonResolves (Response 200) (success_envelope (JArr [JNum 1])))]
      (fst (subscription example_client ''poll'' throwing_opts)))) = Finished
   \<and> snd (sub_run example_client ''poll'' throwing_opts
      [Unsubscribe, Settle (JsonResolves (Response 200) (success_envelope (JArr [JNum 1])))]
      (fst (subscription example_client ''poll'' throwing_opts)))
     = [Abort, OnSuccessHook (success_envelope (JArr [JNum 1])), Resolve (JArr [JNum 1]),
        OnceResolve (JArr [JNum 1]), OnData (JArr [JNum 1])]"
  by (simp add: eval_defs sub_defs)

end
